theory Spec2Isabelle
  imports Complex_Main
begin

section \<open>AlarmBoard: the alarm table (Alarms.tsx, src/lib/api.ts)\<close>

text \<open>
  The development follows the revision of \<^verbatim>\<open>Alarms.tsx\<close> that polls the two backends
  \<^verbatim>\<open>/api100\<close> and \<^verbatim>\<open>/api69\<close> and the helpers of \<^verbatim>\<open>lib/api.ts\<close>. The older
  \<^verbatim>\<open>src/alarms/Alarms.tsx\<close>, with a single backend, is embedded after it, its names
  carrying the prefix \<open>old\<close>.

  Conventions of the embedding.
  \<^item> A JavaScript string is a \<open>string\<close> holding its UTF-8 bytes; concatenation, equality,
    \<^verbatim>\<open>includes\<close>, \<^verbatim>\<open>endsWith\<close> and the replacement of an ASCII character act on
    well-formed UTF-8 exactly as on the code units.
  \<^item> A JavaScript number is a \<open>jsnum\<close>: its mathematical value when finite, or one of
    \<^verbatim>\<open>NaN\<close>, \<^verbatim>\<open>Infinity\<close>, \<^verbatim>\<open>-Infinity\<close>; \<^verbatim>\<open>-0\<close> is \<open>0\<close>. Reading a literal,
    subtracting and multiplying produce a mathematical value that is then rounded to
    binary64: a value that binary64 holds exactly (\<open>exact64\<close>) is the result as it is,
    and any other value is rounded by the platform (\<open>round64\<close>).
  \<^item> What the browser supplies (date parsing and formatting, collation, JSON, Unicode case
    mapping, the rounding to binary64, the messages of its exceptions) is a field of the
    record \<open>platform\<close>, a parameter of every function that uses it.
\<close>

subsection \<open>Numbers and runtime values\<close>

datatype jsnum = Fin rat | NaN | PosInf | NegInf

datatype jsvalue =
    JUndefined
  | JNull
  | JBoolean bool
  | JString string
  | JNumber jsnum
  | JObject

subsection \<open>The platform\<close>

record platform =
  Date_getTime :: "string \<Rightarrow> jsnum"
  Date_toLocaleString :: "jsnum \<Rightarrow> string"
  localeCompare :: "string \<Rightarrow> string \<Rightarrow> int"
  JSON_parse_String :: "string \<Rightarrow> string option"
  toLowerCase :: "string \<Rightarrow> string"
  fractionToString :: "rat \<Rightarrow> string"
  round64 :: "rat \<Rightarrow> jsnum"
  nullReadMessage :: string

text \<open>
  \<^item> \<open>Date_getTime P s\<close> is \<^verbatim>\<open>new Date(s).getTime()\<close>, \<^verbatim>\<open>NaN\<close> for an invalid date;
  \<^item> \<open>Date_toLocaleString P t\<close> is \<^verbatim>\<open>toLocaleString('pt-BR', ...)\<close> of the date with time
    value \<open>t\<close>, with the options of \<^verbatim>\<open>formatDateUTCToLocal\<close>;
  \<^item> \<open>localeCompare P a b\<close> is \<^verbatim>\<open>a.localeCompare(b)\<close>;
  \<^item> \<open>JSON_parse_String P s\<close> is \<^verbatim>\<open>String(JSON.parse(s))\<close>, \<open>None\<close> when
    \<^verbatim>\<open>JSON.parse\<close> throws;
  \<^item> \<open>toLowerCase P s\<close> is \<^verbatim>\<open>s.toLowerCase()\<close>;
  \<^item> \<open>fractionToString P q\<close> is \<^verbatim>\<open>String(q)\<close> for a finite \<open>q\<close> that is not an integer
    below \<open>10^21\<close> in absolute value;
  \<^item> \<open>round64 P q\<close> is the binary64 number nearest to \<open>q\<close>, an infinity when \<open>q\<close> is
    out of range;
  \<^item> \<open>nullReadMessage P\<close> is the message of the \<^verbatim>\<open>TypeError\<close> that reading a property
    of \<^verbatim>\<open>null\<close> throws.
\<close>

text \<open>
  Binary64 holds \<open>m * 2^e\<close> for \<open>\<bar>m\<bar> < 2^53\<close> and \<open>-1074 \<le> e \<le> 971\<close>. \<open>exact64 q\<close> says
  that \<open>q\<close> is such a value with \<open>e \<le> 0\<close>: in lowest terms its numerator is below
  \<open>2^53\<close> in absolute value and its denominator divides \<open>2^1074\<close>. These values are
  never rounded; every other value goes through the platform's rounding.
\<close>

definition exact64 :: "rat \<Rightarrow> bool" where
  "exact64 q = (case quotient_of q of (n, d) \<Rightarrow> \<bar>n\<bar> < 2 ^ 53 \<and> d dvd 2 ^ 1074)"

definition to_double :: "platform \<Rightarrow> rat \<Rightarrow> jsnum" where
  "to_double P q = (if exact64 q then Fin q else round64 P q)"

text \<open>The number for the mathematical value of a literal.\<close>

definition number_value :: "platform \<Rightarrow> jsnum \<Rightarrow> jsnum" where
  "number_value P v = (case v of Fin q \<Rightarrow> to_double P q | NaN \<Rightarrow> NaN
                       | PosInf \<Rightarrow> PosInf | NegInf \<Rightarrow> NegInf)"

text \<open>\<^verbatim>\<open>Number.isFinite(v)\<close>: false for every value that is not a number, and for
  \<^verbatim>\<open>NaN\<close> and the infinities.\<close>

fun Number_isFinite :: "jsvalue \<Rightarrow> bool" where
  "Number_isFinite (JNumber (Fin q)) = True"
| "Number_isFinite v = False"

text \<open>\<^verbatim>\<open>Number.isNaN(n)\<close> on a value already of type number.\<close>

fun Number_isNaN :: "jsnum \<Rightarrow> bool" where
  "Number_isNaN NaN = True"
| "Number_isNaN n = False"

text \<open>Negation is exact. Subtraction and multiplication round their result, with the
  IEEE rules for \<^verbatim>\<open>NaN\<close> and the infinities.\<close>

fun js_neg :: "jsnum \<Rightarrow> jsnum" where
  "js_neg (Fin q) = Fin (- q)"
| "js_neg NaN = NaN"
| "js_neg PosInf = NegInf"
| "js_neg NegInf = PosInf"

fun js_sub :: "platform \<Rightarrow> jsnum \<Rightarrow> jsnum \<Rightarrow> jsnum" where
  "js_sub P (Fin a) (Fin b) = to_double P (a - b)"
| "js_sub P NaN y = NaN"
| "js_sub P x NaN = NaN"
| "js_sub P PosInf PosInf = NaN"
| "js_sub P NegInf NegInf = NaN"
| "js_sub P PosInf y = PosInf"
| "js_sub P NegInf y = NegInf"
| "js_sub P (Fin a) PosInf = NegInf"
| "js_sub P (Fin a) NegInf = PosInf"

fun js_mul :: "platform \<Rightarrow> jsnum \<Rightarrow> jsnum \<Rightarrow> jsnum" where
  "js_mul P (Fin a) (Fin b) = to_double P (a * b)"
| "js_mul P NaN y = NaN"
| "js_mul P x NaN = NaN"
| "js_mul P PosInf (Fin b) = (if b = 0 then NaN else if 0 < b then PosInf else NegInf)"
| "js_mul P NegInf (Fin b) = (if b = 0 then NaN else if 0 < b then NegInf else PosInf)"
| "js_mul P (Fin a) PosInf = (if a = 0 then NaN else if 0 < a then PosInf else NegInf)"
| "js_mul P (Fin a) NegInf = (if a = 0 then NaN else if 0 < a then NegInf else PosInf)"
| "js_mul P PosInf PosInf = PosInf"
| "js_mul P NegInf NegInf = PosInf"
| "js_mul P PosInf NegInf = NegInf"
| "js_mul P NegInf PosInf = NegInf"

text \<open>The comparisons \<^verbatim>\<open>>=\<close> and \<^verbatim>\<open><=\<close>: false as soon as an operand is
  \<^verbatim>\<open>NaN\<close>.\<close>

fun js_le :: "jsnum \<Rightarrow> jsnum \<Rightarrow> bool" where
  "js_le (Fin a) (Fin b) = (a \<le> b)"
| "js_le NaN y = False"
| "js_le x NaN = False"
| "js_le NegInf y = True"
| "js_le x PosInf = True"
| "js_le PosInf y = False"
| "js_le x NegInf = False"

definition js_ge :: "jsnum \<Rightarrow> jsnum \<Rightarrow> bool" where
  "js_ge x y = js_le y x"

text \<open>Strict equality \<^verbatim>\<open>===\<close> of two numbers: \<^verbatim>\<open>NaN\<close> equals nothing.\<close>

definition js_strict_eq :: "jsnum \<Rightarrow> jsnum \<Rightarrow> bool" where
  "js_strict_eq x y = (x \<noteq> NaN \<and> y \<noteq> NaN \<and> x = y)"

subsection \<open>Strings\<close>

text \<open>\<^verbatim>\<open>h.includes(n)\<close>: \<open>n\<close> occurs in \<open>h\<close> as a contiguous block.\<close>

fun is_prefix :: "string \<Rightarrow> string \<Rightarrow> bool" where
  "is_prefix [] h = True"
| "is_prefix (c # n) [] = False"
| "is_prefix (c # n) (d # h) = (c = d \<and> is_prefix n h)"

fun str_includes :: "string \<Rightarrow> string \<Rightarrow> bool" where
  "str_includes [] n = (n = [])"
| "str_includes (c # h) n = (is_prefix n (c # h) \<or> str_includes h n)"

definition endsWith :: "string \<Rightarrow> string \<Rightarrow> bool" where
  "endsWith s suffix = is_prefix (rev suffix) (rev s)"

text \<open>\<^verbatim>\<open>s.replace(',', '.')\<close> with a string pattern replaces the first occurrence only;
  \<^verbatim>\<open>s.replaceAll('"', '')\<close> deletes every double quote.\<close>

fun replace_first :: "char \<Rightarrow> char \<Rightarrow> string \<Rightarrow> string" where
  "replace_first a b [] = []"
| "replace_first a b (c # s) = (if c = a then b # s else c # replace_first a b s)"

definition remove_all :: "char \<Rightarrow> string \<Rightarrow> string" where
  "remove_all a s = filter (\<lambda>c. c \<noteq> a) s"

text \<open>\<^verbatim>\<open>trim\<close> removes the white space and line terminators of ECMAScript from both
  ends. The table lists the UTF-8 encodings of U+0009 to U+000D, U+0020, U+00A0, U+1680,
  U+2000 to U+200A, U+2028, U+2029, U+202F, U+205F, U+3000 and U+FEFF.\<close>

definition whitespace :: "string list" where
  "whitespace =
    [[CHR 0x09], [CHR 0x0A], [CHR 0x0B], [CHR 0x0C], [CHR 0x0D], [CHR 0x20],
     [CHR 0xC2, CHR 0xA0],
     [CHR 0xE1, CHR 0x9A, CHR 0x80],
     [CHR 0xE2, CHR 0x80, CHR 0x80], [CHR 0xE2, CHR 0x80, CHR 0x81],
     [CHR 0xE2, CHR 0x80, CHR 0x82], [CHR 0xE2, CHR 0x80, CHR 0x83],
     [CHR 0xE2, CHR 0x80, CHR 0x84], [CHR 0xE2, CHR 0x80, CHR 0x85],
     [CHR 0xE2, CHR 0x80, CHR 0x86], [CHR 0xE2, CHR 0x80, CHR 0x87],
     [CHR 0xE2, CHR 0x80, CHR 0x88], [CHR 0xE2, CHR 0x80, CHR 0x89],
     [CHR 0xE2, CHR 0x80, CHR 0x8A],
     [CHR 0xE2, CHR 0x80, CHR 0xA8], [CHR 0xE2, CHR 0x80, CHR 0xA9],
     [CHR 0xE2, CHR 0x80, CHR 0xAF],
     [CHR 0xE2, CHR 0x81, CHR 0x9F],
     [CHR 0xE3, CHR 0x80, CHR 0x80],
     [CHR 0xEF, CHR 0xBB, CHR 0xBF]]"

text \<open>The length of the entry of the table that starts \<open>s\<close>, or 0.\<close>

definition lead_len :: "string list \<Rightarrow> string \<Rightarrow> nat" where
  "lead_len ws s = (case find (\<lambda>w. is_prefix w s) ws of None \<Rightarrow> 0 | Some w \<Rightarrow> length w)"

lemma is_prefix_Nil: "is_prefix w [] = (w = [])"
  by (cases w) simp_all

lemma lead_len_Nil: "lead_len ws [] = 0"
  by (auto simp: lead_len_def is_prefix_Nil find_Some_iff split: option.splits)

function strip :: "string list \<Rightarrow> string \<Rightarrow> string" where
  "strip ws s = (if lead_len ws s = 0 then s else strip ws (drop (lead_len ws s) s))"
  by pat_completeness auto
termination
proof (relation "measure (\<lambda>(ws, s). length s)")
  show "wf (measure (\<lambda>(ws, s). length s))" by simp
next
  fix ws :: "string list" and s :: string
  assume pos: "lead_len ws s \<noteq> 0"
  then have "s \<noteq> []" using lead_len_Nil by auto
  with pos show "((ws, drop (lead_len ws s) s), (ws, s)) \<in> measure (\<lambda>(ws, s). length s)"
    by simp
qed

declare strip.simps [simp del]

definition trimStart :: "string \<Rightarrow> string" where
  "trimStart s = strip whitespace s"

definition trimEnd :: "string \<Rightarrow> string" where
  "trimEnd s = rev (strip (map rev whitespace) (rev s))"

definition trim :: "string \<Rightarrow> string" where
  "trim s = trimEnd (trimStart s)"

subsection \<open>Numbers and strings\<close>

definition is_digit :: "char \<Rightarrow> bool" where
  "is_digit c = (48 \<le> (of_char c :: nat) \<and> (of_char c :: nat) \<le> 57)"

definition digit_val :: "char \<Rightarrow> nat" where
  "digit_val c = of_char c - 48"

definition digits_val :: "string \<Rightarrow> nat" where
  "digits_val ds = foldl (\<lambda>a c. 10 * a + digit_val c) 0 ds"

text \<open>The digits of the other radixes (\<^verbatim>\<open>0x\<close>, \<^verbatim>\<open>0o\<close>, \<^verbatim>\<open>0b\<close>): the value of a
  digit, if it is one in the radix.\<close>

definition radix_digit :: "nat \<Rightarrow> char \<Rightarrow> nat option" where
  "radix_digit b c =
     (let n = (of_char c :: nat);
          v = (if 48 \<le> n \<and> n \<le> 57 then Some (n - 48)
               else if 97 \<le> n \<and> n \<le> 102 then Some (n - 87)
               else if 65 \<le> n \<and> n \<le> 70 then Some (n - 55)
               else None)
      in case v of None \<Rightarrow> None | Some d \<Rightarrow> if d < b then Some d else None)"

fun radix_val :: "nat \<Rightarrow> nat \<Rightarrow> string \<Rightarrow> nat option" where
  "radix_val b acc [] = Some acc"
| "radix_val b acc (c # s) =
     (case radix_digit b c of None \<Rightarrow> None | Some d \<Rightarrow> radix_val b (b * acc + d) s)"

text \<open>\<open>NonDecimalIntegerLiteral\<close>: \<^verbatim>\<open>0x\<close>, \<^verbatim>\<open>0o\<close> or \<^verbatim>\<open>0b\<close> (either case) and at
  least one digit of the radix, with no sign.\<close>

definition non_decimal :: "string \<Rightarrow> jsnum option" where
  "non_decimal t =
     (case t of
        [] \<Rightarrow> None
      | z # t' \<Rightarrow>
          (case t' of
             [] \<Rightarrow> None
           | x # ds \<Rightarrow>
               (if z = CHR ''0'' \<and> ds \<noteq> [] then
                  (let b = (if x = CHR ''x'' \<or> x = CHR ''X'' then 16
                            else if x = CHR ''o'' \<or> x = CHR ''O'' then 8
                            else if x = CHR ''b'' \<or> x = CHR ''B'' then 2 else (0::nat))
                   in if b = 0 then None
                      else (case radix_val b 0 ds of None \<Rightarrow> None
                            | Some v \<Rightarrow> Some (Fin (of_nat v))))
                else None)))"

text \<open>\<open>ExponentPart\<close> after a mantissa \<open>m\<close>: \<^verbatim>\<open>e\<close> or \<^verbatim>\<open>E\<close>, an optional sign and at
  least one digit; when the digits are missing the exponent is not part of the literal.
  The result is the mathematical value, not yet rounded, and the rest of the string.\<close>

definition with_exponent :: "rat \<Rightarrow> string \<Rightarrow> jsnum \<times> string" where
  "with_exponent m r =
     (case r of
        [] \<Rightarrow> (Fin m, r)
      | e # r' \<Rightarrow>
          (if e = CHR ''e'' \<or> e = CHR ''E'' then
             (let neg = (case r' of [] \<Rightarrow> False | c # x \<Rightarrow> c = CHR ''-'');
                  r'' = (case r' of [] \<Rightarrow> []
                         | c # x \<Rightarrow> if c = CHR ''+'' \<or> c = CHR ''-'' then x else r');
                  ed = takeWhile is_digit r''
              in if ed = [] then (Fin m, r)
                 else (Fin (if neg then m / 10 ^ digits_val ed else m * 10 ^ digits_val ed),
                       dropWhile is_digit r''))
           else (Fin m, r)))"

text \<open>\<open>StrUnsignedDecimalLiteral\<close>, longest match at the start of the string:
  \<^verbatim>\<open>Infinity\<close>, or digits with an optional fraction and exponent, or a fraction that
  starts with the point.\<close>

definition parse_unsigned :: "string \<Rightarrow> (jsnum \<times> string) option" where
  "parse_unsigned s =
     (if is_prefix ''Infinity'' s then Some (PosInf, drop 8 s)
      else
        (let ip = takeWhile is_digit s; r1 = dropWhile is_digit s
         in case r1 of
              [] \<Rightarrow> if ip = [] then None else Some (with_exponent (of_nat (digits_val ip)) r1)
            | c # r2 \<Rightarrow>
                (if c = CHR ''.'' then
                   (let fp = takeWhile is_digit r2; r3 = dropWhile is_digit r2
                    in if ip = [] \<and> fp = [] then None
                       else Some (with_exponent
                                    (of_nat (digits_val (ip @ fp)) / 10 ^ length fp) r3))
                 else if ip = [] then None
                 else Some (with_exponent (of_nat (digits_val ip)) r1))))"

definition parse_signed :: "string \<Rightarrow> (jsnum \<times> string) option" where
  "parse_signed s =
     (case s of
        [] \<Rightarrow> None
      | c # r \<Rightarrow>
          (if c = CHR ''-'' then
             (case parse_unsigned r of None \<Rightarrow> None | Some (v, rest) \<Rightarrow> Some (js_neg v, rest))
           else if c = CHR ''+'' then parse_unsigned r
           else parse_unsigned s))"

text \<open>\<^verbatim>\<open>Number(s)\<close> on a string: white space is trimmed, the empty string is 0, and the
  whole of what is left must be a numeric literal, whose value is rounded.\<close>

definition Number :: "platform \<Rightarrow> string \<Rightarrow> jsnum" where
  "Number P s =
     (let t = trim s
      in if t = [] then Fin 0
         else (case non_decimal t of
                 Some v \<Rightarrow> number_value P v
               | None \<Rightarrow>
                   (case parse_signed t of
                      None \<Rightarrow> NaN
                    | Some (v, rest) \<Rightarrow> if rest = [] then number_value P v else NaN)))"

text \<open>\<^verbatim>\<open>parseFloat(s)\<close>: leading white space is skipped and the longest decimal literal
  at the start is read and its value rounded; what follows it is ignored.\<close>

definition parseFloat :: "platform \<Rightarrow> string \<Rightarrow> jsnum" where
  "parseFloat P s =
     (case parse_signed (trimStart s) of None \<Rightarrow> NaN | Some (v, rest) \<Rightarrow> number_value P v)"

text \<open>The decimal digits of a natural number.\<close>

fun decimal_nat :: "nat \<Rightarrow> string" where
  "decimal_nat n =
     (if n < 10 then [char_of (48 + n)]
      else decimal_nat (n div 10) @ [char_of (48 + n mod 10)])"

declare decimal_nat.simps [simp del]

subsection \<open>Numbers as strings\<close>

text \<open>\<^verbatim>\<open>String(n)\<close> of a number.\<close>

definition numberToString :: "platform \<Rightarrow> jsnum \<Rightarrow> string" where
  "numberToString P n =
     (case n of
        NaN \<Rightarrow> ''NaN''
      | PosInf \<Rightarrow> ''Infinity''
      | NegInf \<Rightarrow> ''-Infinity''
      | Fin q \<Rightarrow>
          (if of_int \<lfloor>q\<rfloor> = q \<and> \<bar>q\<bar> < 10 ^ 21
           then (if q < 0 then ''-'' else []) @ decimal_nat (nat \<bar>\<lfloor>q\<rfloor>\<bar>)
           else fractionToString P q))"

subsection \<open>lib/api.ts: the alarm as the backend sends it, and the helpers\<close>

record TriggerValue =
  tv_value :: "string option"
  tv_units :: "string option"

text \<open>\<open>AlarmDTO\<close>. The field \<^verbatim>\<open>priority\<close> is declared a number, but the table reads it
  through \<^verbatim>\<open>as unknown as number\<close> and tests it at run time, so it is kept as the value
  the JSON held.\<close>

record AlarmDTO =
  alarm_id :: string
  itemReference :: string
  alarm_name :: string
  creationTime :: string
  isAcknowledged :: bool
  isDiscarded :: bool
  alarm_priority :: jsvalue
  triggerValue :: "TriggerValue option"

text \<open>The response. An element of \<^verbatim>\<open>items\<close> is an alarm or, as JSON allows whatever the
  declared type says, \<^verbatim>\<open>null\<close> (\<open>None\<close>).\<close>

record AlarmsResponse =
  total :: jsnum
  items :: "AlarmDTO option list"

definition normalizeValue :: "platform \<Rightarrow> string option \<Rightarrow> string" where
  "normalizeValue P raw =
     (case raw of
        None \<Rightarrow> []
      | Some s \<Rightarrow>
          (if s = [] then []
           else (case JSON_parse_String P s of
                   Some v \<Rightarrow> v
                 | None \<Rightarrow> remove_all CHR 0x22 s)))"

text \<open>The degree sign U+00B0 is the two bytes C2 B0.\<close>

definition mapUnit :: "string option \<Rightarrow> string" where
  "mapUnit units =
     (case units of
        None \<Rightarrow> []
      | Some u \<Rightarrow>
          (if u = [] then []
           else if endsWith u ''.degF'' then [CHR 0xC2, CHR 0xB0, CHR ''F'']
           else if endsWith u ''.degC'' then [CHR 0xC2, CHR 0xB0, CHR ''C'']
           else u))"

definition formatDateUTCToLocal :: "platform \<Rightarrow> string \<Rightarrow> string" where
  "formatDateUTCToLocal P isoText = Date_toLocaleString P (Date_getTime P isoText)"

subsection \<open>Alarms.tsx: rows, keys and view state\<close>

text \<open>The labels \<^verbatim>\<open>Sim | Nao\<close> and their text (U+00E3 is C3 A3).\<close>

datatype SimNao = Sim | Nao

fun label_text :: "SimNao \<Rightarrow> string" where
  "label_text Sim = ''Sim''"
| "label_text Nao = [CHR ''N'', CHR 0xC3, CHR 0xA3, CHR ''o'']"

record Row =
  row_id :: string
  dateTimeISO :: string
  dateTime :: string
  site :: string
  point :: string
  row_value :: string
  row_unit :: string
  priority :: jsnum
  reconhecido :: SimNao
  descartado :: SimNao

datatype SortKey =
    K_dateTime | K_site | K_point | K_value | K_unit | K_priority
  | K_reconhecido | K_descartado

datatype SortDir = Asc | Desc

text \<open>The filter selects \<^verbatim>\<open>'all' | 'sim' | 'nao'\<close>.\<close>

datatype TriState = F_all | F_sim | F_nao

definition COMMENT_KEY :: "string \<Rightarrow> string" where
  "COMMENT_KEY i = ''alarm_comment_'' @ i"

text \<open>\<^verbatim>\<open>localStorage\<close>: the stored items, and whether reading and writing succeed
  (either may throw, which the callers catch).\<close>

record Storage =
  stored :: "string \<rightharpoonup> string"
  readable :: bool
  writable :: bool

definition loadComment :: "Storage \<Rightarrow> string \<Rightarrow> string" where
  "loadComment S i =
     (if readable S then (case stored S (COMMENT_KEY i) of None \<Rightarrow> [] | Some t \<Rightarrow> t)
      else [])"

definition saveComment :: "Storage \<Rightarrow> string \<Rightarrow> string \<Rightarrow> Storage" where
  "saveComment S i t =
     (if writable S then S\<lparr>stored := (stored S)(COMMENT_KEY i \<mapsto> t)\<rparr> else S)"

record VisibleCols =
  col_dateTime :: bool
  col_site :: bool
  col_point :: bool
  col_value :: bool
  col_unit :: bool
  col_priority :: bool
  col_reconhecido :: bool
  col_descartado :: bool
  col_comentario :: bool

text \<open>The two backends: the proxy prefix that is called and the address that tags the
  alarms it returns.\<close>

datatype ApiPrefix = Api100 | Api69

datatype FromIp = Ip100 | Ip69

fun ip_text :: "FromIp \<Rightarrow> string" where
  "ip_text Ip100 = ''10.2.1.100''"
| "ip_text Ip69 = ''10.2.1.69''"

text \<open>The composed id \<^verbatim>\<open>`${fromIp}-${a.id}`\<close>.\<close>

definition composedId :: "FromIp \<Rightarrow> AlarmDTO \<Rightarrow> string" where
  "composedId fromIp a = ip_text fromIp @ ''-'' @ alarm_id a"

text \<open>\<^verbatim>\<open>Number.isFinite(a.priority) ? a.priority : 0\<close>. The cast does nothing at run
  time; past the test the value is a number.\<close>

definition priority_or_zero :: "jsvalue \<Rightarrow> jsnum" where
  "priority_or_zero v =
     (if Number_isFinite v then (case v of JNumber n \<Rightarrow> n | _ \<Rightarrow> Fin 0) else Fin 0)"

text \<open>One element of \<^verbatim>\<open>mapped\<close>: the row of a tagged alarm. In \<^verbatim>\<open>a.name ||
  a.itemReference\<close> the name counts when it is not the empty string.\<close>

definition toRow :: "platform \<Rightarrow> FromIp \<times> AlarmDTO \<Rightarrow> Row" where
  "toRow P x =
     (case x of (fromIp, a) \<Rightarrow>
        \<lparr> row_id = composedId fromIp a,
          dateTimeISO = creationTime a,
          dateTime = formatDateUTCToLocal P (creationTime a),
          site = itemReference a,
          point = (if alarm_name a \<noteq> [] then alarm_name a else itemReference a),
          row_value = normalizeValue P (case triggerValue a of None \<Rightarrow> None | Some t \<Rightarrow> tv_value t),
          row_unit = mapUnit (case triggerValue a of None \<Rightarrow> None | Some t \<Rightarrow> tv_units t),
          priority = priority_or_zero (alarm_priority a),
          reconhecido = (if isAcknowledged a then Sim else Nao),
          descartado = (if isDiscarded a then Sim else Nao) \<rparr>)"

text \<open>The state of the component: one field for each \<^verbatim>\<open>useState\<close> and the interval
  handle. \<open>intervalRef\<close> is \<open>None\<close> for \<^verbatim>\<open>null\<close>; a running interval holds the request
  options of the render that created it, because its callback calls the \<^verbatim>\<open>fetchData\<close>
  of that render (the effect depends on \<^verbatim>\<open>autoRefresh\<close> only).\<close>

record FetchOpts =
  opt_isAcknowledged :: "bool option"
  opt_isDiscarded :: "bool option"

record State =
  rows :: "Row list"
  loading :: bool
  err :: string
  connectionNote :: string
  fSite :: string
  fPoint :: string
  fValue :: string
  fDateFrom :: string
  fDateTo :: string
  fPriority :: string
  fAck :: TriState
  fDisc :: TriState
  sortKey :: SortKey
  sortDir :: SortDir
  autoRefresh :: bool
  secondsLeft :: int
  intervalRef :: "FetchOpts option"
  comments :: "string \<rightharpoonup> string"
  visibleCols :: VisibleCols

definition init_state :: "VisibleCols \<Rightarrow> State" where
  "init_state vc =
     \<lparr> rows = [], loading = False, err = [], connectionNote = [],
       fSite = [], fPoint = [], fValue = [], fDateFrom = [], fDateTo = [], fPriority = [],
       fAck = F_all, fDisc = F_all,
       sortKey = K_dateTime, sortDir = Desc,
       autoRefresh = True, secondsLeft = 60, intervalRef = None,
       comments = Map.empty, visibleCols = vc \<rparr>"

subsection \<open>The calls to the backends\<close>

text \<open>
  An \<^verbatim>\<open>async\<close> function is a tree of its \<^verbatim>\<open>await\<close>s: it returns, throws, or awaits
  \<^verbatim>\<open>loginP\<close> or \<^verbatim>\<open>getAlarmsP\<close> and goes on with what the call settled to (\<open>Inl\<close> the
  message of the rejection). The two calls themselves (the HTTP exchange) are the
  backend's.
\<close>

datatype 'a task =
    Return 'a
  | Raise string
  | AwaitLogin ApiPrefix string string "string + string \<Rightarrow> 'a task"
  | AwaitAlarms ApiPrefix string FetchOpts "string + AlarmsResponse \<Rightarrow> 'a task"

text \<open>\<^verbatim>\<open>try { ... } catch (e) { ... }\<close> around a task: its outcome as a value.\<close>

primrec attempt :: "'a task \<Rightarrow> (string + 'a) task" where
  "attempt (Return x) = Return (Inr x)"
| "attempt (Raise e) = Return (Inl e)"
| "attempt (AwaitLogin p u w k) = AwaitLogin p u w (\<lambda>r. attempt (k r))"
| "attempt (AwaitAlarms p t q k) = AwaitAlarms p t q (\<lambda>r. attempt (k r))"

text \<open>Sequencing: the statements after a task.\<close>

primrec and_then :: "'a task \<Rightarrow> ('a \<Rightarrow> 'b task) \<Rightarrow> 'b task" where
  "and_then (Return x) f = f x"
| "and_then (Raise e) f = Raise e"
| "and_then (AwaitLogin p u w k) f = AwaitLogin p u w (\<lambda>r. and_then (k r) f)"
| "and_then (AwaitAlarms p t q k) f = AwaitAlarms p t q (\<lambda>r. and_then (k r) f)"

text \<open>\<^verbatim>\<open>fetchFrom(prefix, opts)\<close>: log in, then get the alarms with the token.\<close>

definition fetchFrom :: "ApiPrefix \<Rightarrow> FetchOpts \<Rightarrow> AlarmDTO option list task" where
  "fetchFrom prefix opts =
     AwaitLogin prefix ''api'' ''GMX3-Rel.10''
       (\<lambda>r. case r of
          Inl e \<Rightarrow> Raise e
        | Inr token \<Rightarrow>
            AwaitAlarms prefix token opts
              (\<lambda>r'. case r' of Inl e \<Rightarrow> Raise e | Inr data \<Rightarrow> Return (items data)))"

text \<open>The local variables of \<^verbatim>\<open>fetchData\<close> that the two \<^verbatim>\<open>try\<close> blocks fill.\<close>

record Locals =
  itemsAll :: "(FromIp \<times> AlarmDTO option) list"
  successes :: "string list"
  failures :: "string list"
  c100 :: nat
  c69 :: nat

definition init_locals :: Locals where
  "init_locals = \<lparr> itemsAll = [], successes = [], failures = [], c100 = 0, c69 = 0 \<rparr>"

definition after100 :: "string + AlarmDTO option list \<Rightarrow> Locals \<Rightarrow> Locals" where
  "after100 r L =
     (case r of
        Inr a100 \<Rightarrow>
          L\<lparr> c100 := length a100,
             itemsAll := itemsAll L @ map (\<lambda>i. (Ip100, i)) a100,
             successes := successes L @ [''10.2.1.100''] \<rparr>
      | Inl e \<Rightarrow> L\<lparr> failures := failures L @ [''10.2.1.100''] \<rparr>)"

definition after69 :: "string + AlarmDTO option list \<Rightarrow> Locals \<Rightarrow> Locals" where
  "after69 r L =
     (case r of
        Inr a69 \<Rightarrow>
          L\<lparr> c69 := length a69,
             itemsAll := itemsAll L @ map (\<lambda>i. (Ip69, i)) a69,
             successes := successes L @ [''10.2.1.69''] \<rparr>
      | Inl e \<Rightarrow> L\<lparr> failures := failures L @ [''10.2.1.69''] \<rparr>)"

text \<open>The part of \<^verbatim>\<open>fetchData\<close> that awaits: the first \<^verbatim>\<open>try\<close> block, then the
  second.\<close>

definition fetchData_calls :: "FetchOpts \<Rightarrow> Locals task" where
  "fetchData_calls opts =
     and_then (attempt (fetchFrom Api100 opts)) (\<lambda>r100.
     and_then (attempt (fetchFrom Api69 opts)) (\<lambda>r69.
     Return (after69 r69 (after100 r100 init_locals))))"

text \<open>A backend answers each call; running a task against it gives the calls in the order
  they were issued and settled, and the outcome.\<close>

record Backend =
  loginP :: "ApiPrefix \<Rightarrow> string \<Rightarrow> string \<Rightarrow> string + string"
  getAlarmsP :: "ApiPrefix \<Rightarrow> string \<Rightarrow> FetchOpts \<Rightarrow> string + AlarmsResponse"

datatype Call = Login ApiPrefix | GetAlarms ApiPrefix

datatype IoEvent = Issued Call | Settled Call

primrec run :: "Backend \<Rightarrow> 'a task \<Rightarrow> IoEvent list \<times> (string + 'a)" where
  "run B (Return x) = ([], Inr x)"
| "run B (Raise e) = ([], Inl e)"
| "run B (AwaitLogin p u w k) =
     (case run B (k (loginP B p u w)) of
        (tr, res) \<Rightarrow> (Issued (Login p) # Settled (Login p) # tr, res))"
| "run B (AwaitAlarms p t q k) =
     (case run B (k (getAlarmsP B p t q)) of
        (tr, res) \<Rightarrow> (Issued (GetAlarms p) # Settled (GetAlarms p) # tr, res))"

subsection \<open>fetchData\<close>

definition opts_of :: "State \<Rightarrow> FetchOpts" where
  "opts_of st =
     \<lparr> opt_isAcknowledged = (if fAck st = F_all then None else Some (fAck st = F_sim)),
       opt_isDiscarded = (if fDisc st = F_all then None else Some (fDisc st = F_sim)) \<rparr>"

text \<open>Up to the first \<^verbatim>\<open>await\<close>.\<close>

definition fetchData_start :: "State \<Rightarrow> State" where
  "fetchData_start st = st\<lparr> loading := True, err := [], connectionNote := [] \<rparr>"

fun join :: "string \<Rightarrow> string list \<Rightarrow> string" where
  "join sep [] = []"
| "join sep [x] = x"
| "join sep (x # y # ys) = x @ sep @ join sep (y # ys)"

text \<open>The three notes. The dash U+2014 is E2 80 94 and U+00F5 is C3 B5.\<close>

definition note_connected :: "nat \<Rightarrow> nat \<Rightarrow> string" where
  "note_connected n100 n69 =
     ''Conectado (100: '' @ decimal_nat n100 @ '' + 69: '' @ decimal_nat n69 @ '')''"

definition note_partial :: "string \<Rightarrow> string list \<Rightarrow> string" where
  "note_partial ok failed =
     ''Parcial '' @ [CHR 0xE2, CHR 0x80, CHR 0x94] @ '' ok: '' @ ok @ '' / falha: ''
       @ join '', '' failed"

definition note_failed :: string where
  "note_failed = ''Falha nas duas conex'' @ [CHR 0xC3, CHR 0xB5] @ ''es''"

text \<open>The outer \<^verbatim>\<open>catch\<close> and \<^verbatim>\<open>finally\<close>, for an exception with message \<open>e\<close>.\<close>

definition fetchData_catch :: "string \<Rightarrow> State \<Rightarrow> State" where
  "fetchData_catch e st =
     st\<lparr> err := (if e \<noteq> [] then e else ''Erro desconhecido''),
         loading := False, secondsLeft := 60 \<rparr>"

text \<open>The array \<^verbatim>\<open>mapped\<close>: the rows of the tagged items, in order. For a \<^verbatim>\<open>null\<close>
  item the callback throws at \<^verbatim>\<open>a.id\<close>, and so does the \<^verbatim>\<open>map\<close>.\<close>

fun mapped :: "platform \<Rightarrow> (FromIp \<times> AlarmDTO option) list \<Rightarrow> string + Row list" where
  "mapped P [] = Inr []"
| "mapped P ((fromIp, None) # xs) = Inl (nullReadMessage P)"
| "mapped P ((fromIp, Some a) # xs) =
     (case mapped P xs of Inl e \<Rightarrow> Inl e | Inr rs \<Rightarrow> Inr (toRow P (fromIp, a) # rs))"

text \<open>After the two \<^verbatim>\<open>try\<close> blocks: the note; then the rows and the comments, unless
  the projection throws, which the outer \<^verbatim>\<open>catch\<close> takes; and the \<^verbatim>\<open>finally\<close>
  block.\<close>

definition fetchData_finish :: "platform \<Rightarrow> Storage \<Rightarrow> Locals \<Rightarrow> State \<Rightarrow> State" where
  "fetchData_finish P S L st =
     (let note =
            (if length (successes L) = 2 then note_connected (c100 L) (c69 L)
             else if length (successes L) = 1 then note_partial (successes L ! 0) (failures L)
             else note_failed);
          st1 = st\<lparr> connectionNote := note \<rparr>
      in case mapped P (itemsAll L) of
           Inl e \<Rightarrow> fetchData_catch e st1
         | Inr rs \<Rightarrow>
             st1\<lparr> rows := rs,
                  comments := fold (\<lambda>r m. m(row_id r \<mapsto> loadComment S (row_id r))) rs Map.empty,
                  loading := False, secondsLeft := 60 \<rparr>)"

text \<open>A round of \<^verbatim>\<open>fetchData\<close> that nothing interleaves with.\<close>

definition fetchData :: "platform \<Rightarrow> Backend \<Rightarrow> Storage \<Rightarrow> State \<Rightarrow> State" where
  "fetchData P B S st =
     (case snd (run B (fetchData_calls (opts_of st))) of
        Inr L \<Rightarrow> fetchData_finish P S L (fetchData_start st)
      | Inl e \<Rightarrow> fetchData_catch e (fetchData_start st))"

subsection \<open>Filters and sorting\<close>

definition clearFilters :: "State \<Rightarrow> State" where
  "clearFilters st =
     st\<lparr> fSite := [], fPoint := [], fValue := [],
         fDateFrom := [], fDateTo := [],
         fPriority := [],
         fAck := F_all, fDisc := F_all,
         sortKey := K_dateTime,
         sortDir := Desc \<rparr>"

definition inc :: "platform \<Rightarrow> string \<Rightarrow> string \<Rightarrow> bool" where
  "inc P h n = str_includes (toLowerCase P h) (toLowerCase P (trim n))"

text \<open>\<open>priNum\<close> is \<open>None\<close> for \<^verbatim>\<open>undefined\<close>.\<close>

definition priNum :: "platform \<Rightarrow> string \<Rightarrow> jsnum option" where
  "priNum P fp = (if trim fp \<noteq> [] then Some (Number P fp) else None)"

definition priIsNum :: "platform \<Rightarrow> string \<Rightarrow> bool" where
  "priIsNum P fp = (case priNum P fp of None \<Rightarrow> False | Some n \<Rightarrow> \<not> Number_isNaN n)"

definition passPriority :: "platform \<Rightarrow> string \<Rightarrow> Row \<Rightarrow> bool" where
  "passPriority P fp r =
     (if trim fp = [] then True
      else if priIsNum P fp then
        (case priNum P fp of None \<Rightarrow> False | Some n \<Rightarrow> js_strict_eq (priority r) n)
      else str_includes (numberToString P (priority r)) (trim fp))"

definition passLabel :: "TriState \<Rightarrow> SimNao \<Rightarrow> bool" where
  "passLabel f l = (f = F_all \<or> (if f = F_sim then l = Sim else l = Nao))"

definition passRow :: "platform \<Rightarrow> State \<Rightarrow> Row \<Rightarrow> bool" where
  "passRow P st r =
     (let from = (if fDateFrom st \<noteq> [] then Some (Date_getTime P (fDateFrom st @ ''T00:00:00''))
                  else None);
          to = (if fDateTo st \<noteq> [] then Some (Date_getTime P (fDateTo st @ ''T23:59:59.999''))
                else None);
          passSite = (fSite st = [] \<or> inc P (site r) (fSite st));
          passPoint = (fPoint st = [] \<or> inc P (point r) (fPoint st));
          passValue = (fValue st = [] \<or> inc P (row_value r) (fValue st));
          ts = Date_getTime P (dateTimeISO r);
          passFrom = (case from of None \<Rightarrow> True | Some f \<Rightarrow> js_ge ts f);
          passTo = (case to of None \<Rightarrow> True | Some t \<Rightarrow> js_le ts t);
          passAck = passLabel (fAck st) (reconhecido r);
          passDisc = passLabel (fDisc st) (descartado r)
      in passSite \<and> passPoint \<and> passValue \<and> passFrom \<and> passTo \<and> passAck \<and> passDisc
         \<and> passPriority P (fPriority st) r)"

definition filtered :: "platform \<Rightarrow> State \<Rightarrow> Row list" where
  "filtered P st = filter (passRow P st) (rows st)"

text \<open>The comparator handed to \<^verbatim>\<open>data.sort\<close>.\<close>

definition dir_factor :: "SortDir \<Rightarrow> jsnum" where
  "dir_factor d = (if d = Asc then Fin 1 else Fin (- 1))"

definition compare_text :: "platform \<Rightarrow> SortDir \<Rightarrow> string \<Rightarrow> string \<Rightarrow> jsnum" where
  "compare_text P d x y = js_mul P (Fin (of_int (localeCompare P x y))) (dir_factor d)"

definition sort_compare :: "platform \<Rightarrow> SortKey \<Rightarrow> SortDir \<Rightarrow> Row \<Rightarrow> Row \<Rightarrow> jsnum" where
  "sort_compare P k d a b =
     (case k of
        K_dateTime \<Rightarrow>
          js_mul P (js_sub P (Date_getTime P (dateTimeISO a)) (Date_getTime P (dateTimeISO b)))
                   (dir_factor d)
      | K_site \<Rightarrow> compare_text P d (site a) (site b)
      | K_point \<Rightarrow> compare_text P d (point a) (point b)
      | K_unit \<Rightarrow> compare_text P d (row_unit a) (row_unit b)
      | K_reconhecido \<Rightarrow>
          compare_text P d (label_text (reconhecido a)) (label_text (reconhecido b))
      | K_descartado \<Rightarrow>
          compare_text P d (label_text (descartado a)) (label_text (descartado b))
      | K_priority \<Rightarrow> js_mul P (js_sub P (priority a) (priority b)) (dir_factor d)
      | K_value \<Rightarrow>
          (let na = parseFloat P (replace_first CHR '','' CHR ''.'' (row_value a));
               nb = parseFloat P (replace_first CHR '','' CHR ''.'' (row_value b))
           in if \<not> Number_isNaN na \<and> \<not> Number_isNaN nb
              then js_mul P (js_sub P na nb) (dir_factor d)
              else compare_text P d (row_value a) (row_value b)))"

definition onSort :: "SortKey \<Rightarrow> State \<Rightarrow> State" where
  "onSort k st =
     (if sortKey st = k then st\<lparr> sortDir := (if sortDir st = Asc then Desc else Asc) \<rparr>
      else st\<lparr> sortKey := k, sortDir := Asc \<rparr>)"

subsection \<open>The component over time\<close>

text \<open>
  What happens to the component is a sequence of events, each handled to its end before
  the next. A call of \<^verbatim>\<open>fetchData\<close> runs up to its first \<^verbatim>\<open>await\<close> inside the event
  that made the call, and from the settling of its last call inside a later event;
  between the two it is in flight, with the request options it started with.
\<close>

record System =
  ui :: State
  inFlight :: "FetchOpts list"
  localStorage :: Storage

datatype Event =
    Mount
  | Tick
  | ClickRefresh
  | SetAutoRefresh bool
  | ClickClear
  | RoundSettles nat "string + AlarmDTO option list" "string + AlarmDTO option list"

text \<open>Calling \<^verbatim>\<open>fetchData\<close> with the options \<open>opts\<close> of the render it closes over.\<close>

definition call_fetchData :: "FetchOpts \<Rightarrow> System \<Rightarrow> System" where
  "call_fetchData opts sys =
     sys\<lparr> ui := fetchData_start (ui sys), inFlight := inFlight sys @ [opts] \<rparr>"

text \<open>The effect on \<^verbatim>\<open>autoRefresh\<close>, run after the clean-up of its previous run.\<close>

definition autoRefresh_effect :: "State \<Rightarrow> State" where
  "autoRefresh_effect st =
     (if \<not> autoRefresh st then st\<lparr> intervalRef := None \<rparr>
      else if intervalRef st = None then st\<lparr> intervalRef := Some (opts_of st) \<rparr>
      else st)"

text \<open>
  \<^item> \<open>Mount\<close>: the two effects of the first render, \<^verbatim>\<open>fetchData()\<close> and the interval.
  \<^item> \<open>Tick\<close>: the interval's callback, when an interval is running.
  \<^item> \<open>ClickRefresh\<close>: a click on the refresh button, which is disabled while
    \<^verbatim>\<open>loading\<close>.
  \<^item> \<open>SetAutoRefresh b\<close>: the checkbox; the effect runs again when the value changed.
  \<^item> \<open>ClickClear\<close>: the button of \<^verbatim>\<open>clearFilters\<close>.
  \<^item> \<open>RoundSettles i r100 r69\<close>: the \<open>i\<close>-th call of \<^verbatim>\<open>fetchData\<close> in flight gets the
    outcomes of its two \<^verbatim>\<open>fetchFrom\<close> calls and runs to its end.
\<close>

definition step :: "platform \<Rightarrow> System \<Rightarrow> Event \<Rightarrow> System" where
  "step P sys ev =
     (case ev of
        Mount \<Rightarrow>
          (let sys1 = call_fetchData (opts_of (ui sys)) sys
           in sys1\<lparr> ui := autoRefresh_effect (ui sys1) \<rparr>)
      | Tick \<Rightarrow>
          (case intervalRef (ui sys) of
             None \<Rightarrow> sys
           | Some opts \<Rightarrow>
               (if secondsLeft (ui sys) \<le> 1
                then (let sys1 = call_fetchData opts sys
                      in sys1\<lparr> ui := (ui sys1)\<lparr> secondsLeft := 60 \<rparr> \<rparr>)
                else sys\<lparr> ui := (ui sys)\<lparr> secondsLeft := secondsLeft (ui sys) - 1 \<rparr> \<rparr>))
      | ClickRefresh \<Rightarrow>
          (if loading (ui sys) then sys else call_fetchData (opts_of (ui sys)) sys)
      | SetAutoRefresh b \<Rightarrow>
          (if b = autoRefresh (ui sys) then sys
           else sys\<lparr> ui := autoRefresh_effect ((ui sys)\<lparr> autoRefresh := b, intervalRef := None \<rparr>) \<rparr>)
      | ClickClear \<Rightarrow> sys\<lparr> ui := clearFilters (ui sys) \<rparr>
      | RoundSettles i r100 r69 \<Rightarrow>
          (if i < length (inFlight sys)
           then sys\<lparr> ui := fetchData_finish P (localStorage sys)
                               (after69 r69 (after100 r100 init_locals)) (ui sys),
                     inFlight := take i (inFlight sys) @ drop (Suc i) (inFlight sys) \<rparr>
           else sys))"

definition run_events :: "platform \<Rightarrow> System \<Rightarrow> Event list \<Rightarrow> System" where
  "run_events P sys evs = foldl (step P) sys evs"

definition init_system :: "VisibleCols \<Rightarrow> Storage \<Rightarrow> System" where
  "init_system vc S = \<lparr> ui = init_state vc, inFlight = [], localStorage = S \<rparr>"

subsection \<open>The older revision of Alarms.tsx, with a single backend\<close>

text \<open>
  The repository also holds the older \<^verbatim>\<open>src/alarms/Alarms.tsx\<close>, which logs in to one
  backend through \<^verbatim>\<open>login\<close> and \<^verbatim>\<open>getAlarms\<close> of \<^verbatim>\<open>lib/api.ts\<close>. Its rows have no
  priority, it has no priority filter and no connection note, and it keeps the token in
  its state. Its names carry the prefix \<open>old\<close> here.
\<close>

record OldRow =
  old_id :: string
  old_dateTimeISO :: string
  old_dateTime :: string
  old_site :: string
  old_point :: string
  old_value :: string
  old_unit :: string
  old_reconhecido :: SimNao
  old_descartado :: SimNao

datatype OldSortKey =
    O_dateTime | O_site | O_point | O_value | O_unit | O_reconhecido | O_descartado

record OldVisibleCols =
  old_col_dateTime :: bool
  old_col_site :: bool
  old_col_point :: bool
  old_col_value :: bool
  old_col_unit :: bool
  old_col_reconhecido :: bool
  old_col_descartado :: bool
  old_col_comentario :: bool

record OldState =
  old_token :: string
  old_rows :: "OldRow list"
  old_loading :: bool
  old_err :: string
  old_fSite :: string
  old_fPoint :: string
  old_fValue :: string
  old_fDateFrom :: string
  old_fDateTo :: string
  old_fAck :: TriState
  old_fDisc :: TriState
  old_sortKey :: OldSortKey
  old_sortDir :: SortDir
  old_autoRefresh :: bool
  old_secondsLeft :: int
  old_comments :: "string \<rightharpoonup> string"
  old_visibleCols :: OldVisibleCols

definition old_init_state :: "OldVisibleCols \<Rightarrow> OldState" where
  "old_init_state vc =
     \<lparr> old_token = [], old_rows = [], old_loading = False, old_err = [],
       old_fSite = [], old_fPoint = [], old_fValue = [], old_fDateFrom = [], old_fDateTo = [],
       old_fAck = F_all, old_fDisc = F_all,
       old_sortKey = O_dateTime, old_sortDir = Desc,
       old_autoRefresh = True, old_secondsLeft = 60,
       old_comments = Map.empty, old_visibleCols = vc \<rparr>"

text \<open>\<^verbatim>\<open>clearFilters\<close> of the older revision: the seven filters, and nothing else.\<close>

definition old_clearFilters :: "OldState \<Rightarrow> OldState" where
  "old_clearFilters st =
     st\<lparr> old_fSite := [],
         old_fPoint := [],
         old_fValue := [],
         old_fDateFrom := [],
         old_fDateTo := [],
         old_fAck := F_all,
         old_fDisc := F_all \<rparr>"

definition old_onSort :: "OldSortKey \<Rightarrow> OldState \<Rightarrow> OldState" where
  "old_onSort k st =
     (if old_sortKey st = k
      then st\<lparr> old_sortDir := (if old_sortDir st = Asc then Desc else Asc) \<rparr>
      else st\<lparr> old_sortKey := k, old_sortDir := Asc \<rparr>)"

definition old_toRow :: "platform \<Rightarrow> AlarmDTO \<Rightarrow> OldRow" where
  "old_toRow P a =
     \<lparr> old_id = alarm_id a,
       old_dateTimeISO = creationTime a,
       old_dateTime = formatDateUTCToLocal P (creationTime a),
       old_site = itemReference a,
       old_point = (if alarm_name a \<noteq> [] then alarm_name a else itemReference a),
       old_value = normalizeValue P (case triggerValue a of None \<Rightarrow> None | Some t \<Rightarrow> tv_value t),
       old_unit = mapUnit (case triggerValue a of None \<Rightarrow> None | Some t \<Rightarrow> tv_units t),
       old_reconhecido = (if isAcknowledged a then Sim else Nao),
       old_descartado = (if isDiscarded a then Sim else Nao) \<rparr>"

fun old_mapped :: "platform \<Rightarrow> AlarmDTO option list \<Rightarrow> string + OldRow list" where
  "old_mapped P [] = Inr []"
| "old_mapped P (None # xs) = Inl (nullReadMessage P)"
| "old_mapped P (Some a # xs) =
     (case old_mapped P xs of Inl e \<Rightarrow> Inl e | Inr rs \<Rightarrow> Inr (old_toRow P a # rs))"

text \<open>The one backend: what \<^verbatim>\<open>login\<close> and \<^verbatim>\<open>getAlarms\<close> settle to.\<close>

record OldBackend =
  old_login :: "string \<Rightarrow> string \<Rightarrow> string + string"
  old_getAlarms :: "string \<Rightarrow> FetchOpts \<Rightarrow> string + AlarmsResponse"

definition old_catch :: "string \<Rightarrow> OldState \<Rightarrow> OldState" where
  "old_catch e st =
     st\<lparr> old_err := (if e \<noteq> [] then e else ''Erro desconhecido''),
         old_loading := False, old_secondsLeft := 60 \<rparr>"

text \<open>A round of the older \<^verbatim>\<open>fetchData\<close> that nothing interleaves with.\<close>

definition old_fetchData :: "platform \<Rightarrow> OldBackend \<Rightarrow> Storage \<Rightarrow> OldState \<Rightarrow> OldState" where
  "old_fetchData P B S st =
     (let st1 = st\<lparr> old_loading := True, old_err := [] \<rparr>
      in case old_login B ''api'' ''GMX3-Rel.10'' of
           Inl e \<Rightarrow> old_catch e st1
         | Inr t \<Rightarrow>
             (let st2 = st1\<lparr> old_token := t \<rparr>;
                  opts = \<lparr> opt_isAcknowledged =
                             (if old_fAck st = F_all then None else Some (old_fAck st = F_sim)),
                           opt_isDiscarded =
                             (if old_fDisc st = F_all then None else Some (old_fDisc st = F_sim)) \<rparr>
              in case old_getAlarms B t opts of
                   Inl e \<Rightarrow> old_catch e st2
                 | Inr data \<Rightarrow>
                     (case old_mapped P (items data) of
                        Inl e \<Rightarrow> old_catch e st2
                      | Inr rs \<Rightarrow>
                          st2\<lparr> old_rows := rs,
                               old_comments :=
                                 fold (\<lambda>r m. m(old_id r \<mapsto> loadComment S (old_id r))) rs
                                   Map.empty,
                               old_loading := False, old_secondsLeft := 60 \<rparr>)))"

text \<open>The filters and the sort of a state of the older revision.\<close>

definition old_view_of ::
  "OldState \<Rightarrow> string \<times> string \<times> string \<times> string \<times> string
               \<times> TriState \<times> TriState \<times> OldSortKey \<times> SortDir" where
  "old_view_of st =
     (old_fSite st, old_fPoint st, old_fValue st, old_fDateFrom st, old_fDateTo st,
      old_fAck st, old_fDisc st, old_sortKey st, old_sortDir st)"

subsection \<open>Reading a round\<close>

text \<open>What one \<^verbatim>\<open>fetchFrom\<close> settles to against a backend, and the calls it makes.\<close>

definition outcome ::
  "Backend \<Rightarrow> ApiPrefix \<Rightarrow> FetchOpts \<Rightarrow> string + AlarmDTO option list" where
  "outcome B p opts = snd (run B (fetchFrom p opts))"

definition calls :: "Backend \<Rightarrow> ApiPrefix \<Rightarrow> FetchOpts \<Rightarrow> IoEvent list" where
  "calls B p opts = fst (run B (fetchFrom p opts))"

text \<open>The items of an outcome, tagged with their backend; none for a failure.\<close>

definition tagged ::
  "FromIp \<Rightarrow> string + AlarmDTO option list \<Rightarrow> (FromIp \<times> AlarmDTO option) list" where
  "tagged f r = (case r of Inl e \<Rightarrow> [] | Inr xs \<Rightarrow> map (Pair f) xs)"

text \<open>The calls that are issued and not yet settled after a sequence of events, and
  whether at some moment of the sequence a call to each backend is pending.\<close>

fun source_of :: "Call \<Rightarrow> ApiPrefix" where
  "source_of (Login p) = p"
| "source_of (GetAlarms p) = p"

definition pending_calls :: "IoEvent list \<Rightarrow> Call list" where
  "pending_calls tr =
     foldl (\<lambda>pend e. case e of Issued c \<Rightarrow> pend @ [c] | Settled c \<Rightarrow> remove1 c pend) [] tr"

definition both_pending :: "Call list \<Rightarrow> bool" where
  "both_pending pend =
     (list_ex (\<lambda>c. source_of c = Api100) pend \<and> list_ex (\<lambda>c. source_of c = Api69) pend)"

definition concurrent :: "IoEvent list \<Rightarrow> bool" where
  "concurrent tr =
     list_ex (\<lambda>n. both_pending (pending_calls (take n tr))) [0 ..< Suc (length tr)]"

text \<open>The filters and the sort of a state.\<close>

definition view_of ::
  "State \<Rightarrow> string \<times> string \<times> string \<times> string \<times> string \<times> string
            \<times> TriState \<times> TriState \<times> SortKey \<times> SortDir" where
  "view_of st =
     (fSite st, fPoint st, fValue st, fDateFrom st, fDateTo st, fPriority st,
      fAck st, fDisc st, sortKey st, sortDir st)"

text \<open>The status line: \<^verbatim>\<open>err ? `Erro: ${err}` : connectionNote || dash\<close>, the dash
  being U+2014.\<close>

definition status_text :: "State \<Rightarrow> string" where
  "status_text st =
     (if err st \<noteq> [] then ''Erro: '' @ err st
      else if connectionNote st \<noteq> [] then connectionNote st
      else [CHR 0xE2, CHR 0x80, CHR 0x94])"

subsection \<open>Concrete inputs\<close>

text \<open>A platform, alarms and rows for the concrete instances below.\<close>

definition example_platform :: platform where
  "example_platform =
     \<lparr> Date_getTime = (\<lambda>s. NaN),
       Date_toLocaleString = (\<lambda>t. ''Invalid Date''),
       localeCompare = (\<lambda>a b. if a = b then 0 else 1),
       JSON_parse_String = (\<lambda>s. None),
       toLowerCase = (\<lambda>s. s),
       fractionToString = (\<lambda>q. ''?''),
       round64 = (\<lambda>q. Fin q),
       nullReadMessage = ''Cannot read properties of null (reading 'id')'' \<rparr>"

definition example_alarm :: "string \<Rightarrow> string \<Rightarrow> jsvalue \<Rightarrow> AlarmDTO" where
  "example_alarm i n p =
     \<lparr> alarm_id = i, itemReference = ''NAE/AHU-1'', alarm_name = n,
       creationTime = ''2024-05-01T12:00:00Z'', isAcknowledged = False, isDiscarded = False,
       alarm_priority = p, triggerValue = None \<rparr>"

definition example_row :: "string \<Rightarrow> string \<Rightarrow> jsnum \<Rightarrow> Row" where
  "example_row i v p =
     \<lparr> row_id = i, dateTimeISO = ''2024-05-01T12:00:00Z'', dateTime = ''01/05/2024, 09:00:00'',
       site = ''NAE/AHU-1'', point = ''Fan'', row_value = v, row_unit = [],
       priority = p, reconhecido = Nao, descartado = Nao \<rparr>"

definition example_cols :: VisibleCols where
  "example_cols =
     \<lparr> col_dateTime = True, col_site = True, col_point = True, col_value = True,
       col_unit = True, col_priority = True, col_reconhecido = True, col_descartado = True,
       col_comentario = True \<rparr>"

definition example_storage :: Storage where
  "example_storage = \<lparr> stored = Map.empty, readable = True, writable = True \<rparr>"

definition example_old_cols :: OldVisibleCols where
  "example_old_cols =
     \<lparr> old_col_dateTime = True, old_col_site = True, old_col_point = True,
       old_col_value = True, old_col_unit = True, old_col_reconhecido = True,
       old_col_descartado = True, old_col_comentario = True \<rparr>"

definition old_backend_up :: OldBackend where
  "old_backend_up =
     \<lparr> old_login = (\<lambda>u w. Inr ''token''),
       old_getAlarms =
         (\<lambda>t q. Inr \<lparr> total = Fin 1,
                       items = [Some (example_alarm ''7'' ''Fan'' (JNumber (Fin 2)))] \<rparr>) \<rparr>"

text \<open>Two backends: one where both addresses answer with one alarm of local id 7, and one
  where the login of \<^verbatim>\<open>/api69\<close> is refused.\<close>

definition backend_up :: Backend where
  "backend_up =
     \<lparr> loginP = (\<lambda>p u w. Inr ''token''),
       getAlarmsP =
         (\<lambda>p t q. Inr \<lparr> total = Fin 1,
                         items = [Some (example_alarm ''7'' ''Fan'' (JNumber (Fin 2)))] \<rparr>) \<rparr>"

definition backend_69_down :: Backend where
  "backend_69_down =
     \<lparr> loginP = (\<lambda>p u w. if p = Api69 then Inl ''Falha no login /api69 (503): ''
                          else Inr ''token''),
       getAlarmsP =
         (\<lambda>p t q. Inr \<lparr> total = Fin 1,
                         items = [Some (example_alarm ''7'' ''Fan'' (JNumber (Fin 2)))] \<rparr>) \<rparr>"

text \<open>A backend whose \<^verbatim>\<open>/api69\<close> answers with a \<^verbatim>\<open>null\<close> among its items.\<close>

definition backend_null_item :: Backend where
  "backend_null_item =
     \<lparr> loginP = (\<lambda>p u w. Inr ''token''),
       getAlarmsP =
         (\<lambda>p t q. if p = Api69
                   then Inr \<lparr> total = Fin 2,
                              items = [Some (example_alarm ''8'' ''Pump'' (JNumber (Fin 1))),
                                       None] \<rparr>
                   else Inr \<lparr> total = Fin 1,
                              items = [Some (example_alarm ''7'' ''Fan'' (JNumber (Fin 2)))] \<rparr>) \<rparr>"

definition backend_down :: Backend where
  "backend_down =
     \<lparr> loginP = (\<lambda>p u w. Inl ''Failed to fetch''),
       getAlarmsP = (\<lambda>p t q. Inl ''Failed to fetch'') \<rparr>"

section \<open>Properties\<close>

subsection \<open>Composed identity\<close>

lemma composedId_eq_iff:
  "(composedId f a = composedId g b) = (f = g \<and> alarm_id a = alarm_id b)"
  by (cases f; cases g) (simp_all add: composedId_def)

lemma COMMENT_KEY_eq_iff: "(COMMENT_KEY i = COMMENT_KEY j) = (i = j)"
  by (simp add: COMMENT_KEY_def)

lemma row_id_toRow: "row_id (toRow P (f, a)) = composedId f a"
  by (simp add: toRow_def)

lemma loadComment_saveComment_other:
  "i \<noteq> j \<Longrightarrow> loadComment (saveComment S i t) j = loadComment S j"
  by (simp add: loadComment_def saveComment_def COMMENT_KEY_eq_iff)

text \<open>
  Claim C4. Two alarms that come from different backends get different composed ids,
  whatever their local ids are, and in particular when the local ids are equal. The row
  keys are the composed ids, the keys under which the comments are stored differ as well,
  and saving a comment for the one leaves the comment read for the other as it was.
\<close>

theorem composed_identity_injective:
  "f \<noteq> g \<Longrightarrow>
     composedId f a \<noteq> composedId g b
   \<and> row_id (toRow P (f, a)) \<noteq> row_id (toRow P (g, b))
   \<and> COMMENT_KEY (composedId f a) \<noteq> COMMENT_KEY (composedId g b)
   \<and> loadComment (saveComment S (composedId f a) t) (composedId g b)
       = loadComment S (composedId g b)"
  by (simp add: composedId_eq_iff COMMENT_KEY_eq_iff row_id_toRow loadComment_saveComment_other)

theorem composed_identity_injective_witness:
  "Ip100 \<noteq> Ip69
   \<and> alarm_id (example_alarm ''7'' ''Fan'' (JNumber (Fin 2)))
       = alarm_id (example_alarm ''7'' [] JUndefined)
   \<and> composedId Ip100 (example_alarm ''7'' ''Fan'' (JNumber (Fin 2))) = ''10.2.1.100-7''
   \<and> composedId Ip69 (example_alarm ''7'' [] JUndefined) = ''10.2.1.69-7''
   \<and> composedId Ip100 (example_alarm ''7'' ''Fan'' (JNumber (Fin 2)))
       \<noteq> composedId Ip69 (example_alarm ''7'' [] JUndefined)
   \<and> COMMENT_KEY (composedId Ip100 (example_alarm ''7'' ''Fan'' (JNumber (Fin 2))))
       \<noteq> COMMENT_KEY (composedId Ip69 (example_alarm ''7'' [] JUndefined))
   \<and> loadComment
        (saveComment example_storage
           (composedId Ip100 (example_alarm ''7'' ''Fan'' (JNumber (Fin 2)))) ''seen'')
        (composedId Ip100 (example_alarm ''7'' ''Fan'' (JNumber (Fin 2)))) = ''seen''
   \<and> loadComment
        (saveComment example_storage
           (composedId Ip100 (example_alarm ''7'' ''Fan'' (JNumber (Fin 2)))) ''seen'')
        (composedId Ip69 (example_alarm ''7'' [] JUndefined)) = []"
  using composed_identity_injective [of Ip100 Ip69
      "example_alarm ''7'' ''Fan'' (JNumber (Fin 2))"
      "example_alarm ''7'' [] JUndefined" example_platform example_storage "''seen''"]
  by (simp add: composedId_def example_alarm_def loadComment_def saveComment_def
        example_storage_def COMMENT_KEY_def)

subsection \<open>The projection of an alarm to a row\<close>



subsection \<open>The priority filter\<close>

lemma Number_isNaN_iff: "Number_isNaN n = (n = NaN)"
  by (cases n) simp_all

lemma passPriority_iff:
  "passPriority P fp r =
     (if trim fp = [] then True
      else if Number P fp \<noteq> NaN then priority r = Number P fp
      else str_includes (numberToString P (priority r)) (trim fp))"
  by (auto simp: passPriority_def priIsNum_def priNum_def js_strict_eq_def Number_isNaN_iff)

lemma trim_empty: "trim [] = []"
  by code_simp

lemma trim_0: "trim ''0'' = ''0''"
  by code_simp

text \<open>Values that are never rounded.\<close>

lemma exact64_of_nat: "n < 2 ^ 53 \<Longrightarrow> exact64 (of_nat n)"
proof -
  assume "n < 2 ^ 53"
  then have "int n < 2 ^ 53"
    by (metis of_nat_less_iff of_nat_numeral of_nat_power)
  moreover have "quotient_of (of_nat n) = (int n, 1)"
    using quotient_of_int [of "int n"] by simp
  ultimately show ?thesis by (simp add: exact64_def)
qed

lemma exact64_0: "exact64 0"
  using exact64_of_nat [of 0] by simp

lemma exact64_uminus: "exact64 (- q) = exact64 q"
  by (simp add: exact64_def rat_uminus_code split: prod.splits)

lemma exact64_25_2: "exact64 (25 / 2)"
  by code_simp

lemma to_double_exact: "exact64 q \<Longrightarrow> to_double P q = Fin q"
  by (simp add: to_double_def)

lemma to_double_0: "to_double P 0 = Fin 0"
  by (simp add: to_double_exact exact64_0)

lemma Number_0: "Number P ''0'' = Fin 0"
  using to_double_exact [OF exact64_0, of P]
  by (simp add: Number_def trim_0 non_decimal_def parse_signed_def parse_unsigned_def
      with_exponent_def is_digit_def digits_val_def digit_val_def number_value_def)

lemma trim_2: "trim ''2'' = ''2''"
  by code_simp

lemma Number_2: "Number P ''2'' = Fin 2"
  using to_double_exact [OF exact64_of_nat, of 2 P]
  by (simp add: Number_def trim_2 non_decimal_def parse_signed_def parse_unsigned_def
      with_exponent_def is_digit_def digits_val_def digit_val_def number_value_def)

lemma trim_minus: "trim '' - '' = ''-''"
  by code_simp

lemma Number_minus: "Number P '' - '' = NaN"
  by (simp add: Number_def trim_minus non_decimal_def parse_signed_def parse_unsigned_def
      is_digit_def)

lemma numberToString_1: "numberToString example_platform (Fin 1) = ''1''"
  by code_simp

lemma numberToString_minus_2: "numberToString example_platform (Fin (- 2)) = ''-2''"
  by code_simp

lemma passPriority_0: "priority r = Fin 0 \<Longrightarrow> passPriority P ''0'' r"
  by (simp add: passPriority_iff trim_0 Number_0)

lemma passPriority_2: "passPriority P ''2'' r = (priority r = Fin 2)"
  by (simp add: passPriority_iff trim_2 Number_2)

text \<open>The decimal digits of a natural number read back as that number.\<close>

lemma is_digit_char_of: "d < 10 \<Longrightarrow> is_digit (char_of (48 + d :: nat))"
  by (simp add: is_digit_def)

lemma digit_val_char_of: "d < 10 \<Longrightarrow> digit_val (char_of (48 + d :: nat)) = d"
  by (simp add: digit_val_def)

lemma decimal_nat_digits: "list_all is_digit (decimal_nat n)"
proof (induction n rule: decimal_nat.induct)
  case (1 n)
  show ?case
  proof (cases "n < 10")
    case True
    then show ?thesis by (subst decimal_nat.simps) (simp add: is_digit_char_of)
  next
    case False
    with 1 show ?thesis by (subst decimal_nat.simps) (simp add: is_digit_char_of)
  qed
qed

lemma decimal_nat_not_Nil: "decimal_nat n \<noteq> []"
  by (subst decimal_nat.simps) simp

lemma digits_val_snoc: "digits_val (ds @ [c]) = 10 * digits_val ds + digit_val c"
  by (simp add: digits_val_def)

lemma digits_val_decimal_nat: "digits_val (decimal_nat n) = n"
proof (induction n rule: decimal_nat.induct)
  case (1 n)
  show ?case
  proof (cases "n < 10")
    case True
    then show ?thesis
      by (subst decimal_nat.simps) (simp add: digits_val_def digit_val_char_of)
  next
    case False
    with 1 show ?thesis
      by (subst decimal_nat.simps) (simp add: digits_val_snoc digit_val_char_of)
  qed
qed

lemma whitespace_heads: "w \<in> set whitespace \<Longrightarrow> w \<noteq> [] \<and> \<not> is_digit (hd w)"
  by (auto simp: whitespace_def is_digit_def)

lemma whitespace_lasts: "w \<in> set whitespace \<Longrightarrow> w \<noteq> [] \<and> \<not> is_digit (last w)"
  by (auto simp: whitespace_def is_digit_def)

lemma is_prefix_hd: "is_prefix w (c # s) \<Longrightarrow> w \<noteq> [] \<Longrightarrow> hd w = c"
  by (cases w) auto

lemma lead_len_digit: "is_digit c \<Longrightarrow> lead_len whitespace (c # s) = 0"
proof -
  assume c: "is_digit c"
  have "\<not> is_prefix w (c # s)" if "w \<in> set whitespace" for w
    using that c whitespace_heads [of w] is_prefix_hd [of w c s] by auto
  then have "find (\<lambda>w. is_prefix w (c # s)) whitespace = None"
    by (simp add: find_None_iff)
  then show ?thesis by (simp add: lead_len_def)
qed

lemma lead_len_rev_digit: "is_digit c \<Longrightarrow> lead_len (map rev whitespace) (c # s) = 0"
proof -
  assume c: "is_digit c"
  have "\<not> is_prefix (rev w) (c # s)" if "w \<in> set whitespace" for w
    using that c whitespace_lasts [of w] is_prefix_hd [of "rev w" c s]
    by (auto simp: hd_rev)
  then have "find (\<lambda>w. is_prefix w (c # s)) (map rev whitespace) = None"
    by (auto simp: find_None_iff)
  then show ?thesis by (simp add: lead_len_def)
qed

lemma strip_id: "lead_len ws s = 0 \<Longrightarrow> strip ws s = s"
  by (subst strip.simps) simp

lemma trim_digits: "s \<noteq> [] \<Longrightarrow> list_all is_digit s \<Longrightarrow> trim s = s"
proof -
  assume ne: "s \<noteq> []" and d: "list_all is_digit s"
  then obtain c t where s: "s = c # t" by (cases s) auto
  with d have "trimStart s = s"
    by (simp add: trimStart_def strip_id lead_len_digit)
  moreover from ne obtain c' t' where r: "rev s = c' # t'" by (cases "rev s") auto
  then have "c' \<in> set s" by (metis list.set_intros(1) set_rev)
  with d have "is_digit c'" by (simp add: list_all_iff)
  with r have "trimEnd s = s"
    by (simp add: trimEnd_def strip_id lead_len_rev_digit)
  ultimately show ?thesis by (simp add: trim_def)
qed

lemma non_decimal_digits: "list_all is_digit s \<Longrightarrow> non_decimal s = None"
  by (auto simp: non_decimal_def is_digit_def Let_def split: list.splits)

lemma parse_signed_digits:
  "s \<noteq> [] \<Longrightarrow> list_all is_digit s \<Longrightarrow>
   parse_signed s = Some (Fin (of_nat (digits_val s)), [])"
proof -
  assume ne: "s \<noteq> []" and d: "list_all is_digit s"
  then obtain c t where s: "s = c # t" and c: "is_digit c" by (cases s) auto
  from c have c': "c \<noteq> CHR ''-''" "c \<noteq> CHR ''+''" "c \<noteq> CHR ''I''"
    by (auto simp: is_digit_def)
  from d have tw: "takeWhile is_digit s = s" "dropWhile is_digit s = []"
    by (simp_all add: list_all_iff)
  have "\<not> is_prefix ''Infinity'' s"
    using c' by (simp add: s)
  then have "parse_unsigned s = Some (Fin (of_nat (digits_val s)), [])"
    using ne by (simp add: parse_unsigned_def tw with_exponent_def)
  then show ?thesis using c' by (simp add: parse_signed_def s)
qed

lemma Number_decimal_nat: "n < 2 ^ 53 \<Longrightarrow> Number P (decimal_nat n) = Fin (of_nat n)"
  by (simp add: Number_def trim_digits decimal_nat_digits decimal_nat_not_Nil
      non_decimal_digits parse_signed_digits digits_val_decimal_nat number_value_def
      to_double_exact exact64_of_nat)

lemma passPriority_decimal_nat:
  "n < 2 ^ 53 \<Longrightarrow> passPriority P (decimal_nat n) r = (priority r = Fin (of_nat n))"
  by (simp add: passPriority_iff trim_digits decimal_nat_digits decimal_nat_not_Nil
      Number_decimal_nat)

lemma map_eq_four:
  "map g rs = [a, b, c, d] \<Longrightarrow>
   \<exists>w x y z. rs = [w, x, y, z] \<and> g w = a \<and> g x = b \<and> g y = c \<and> g z = d"
  by (auto simp: map_eq_Cons_conv)

lemma passRow_priority_only:
  "fSite st = [] \<Longrightarrow> fPoint st = [] \<Longrightarrow> fValue st = [] \<Longrightarrow> fDateFrom st = [] \<Longrightarrow>
   fDateTo st = [] \<Longrightarrow> fAck st = F_all \<Longrightarrow> fDisc st = F_all \<Longrightarrow>
   passRow P st r = passPriority P (fPriority st) r"
  by (simp add: passRow_def passLabel_def)

text \<open>
  Claim C6. Of a list of rows, the priority filter \<open>fp\<close> passes
  \<^item> every row, when \<open>fp\<close> is empty once trimmed;
  \<^item> exactly the rows whose priority equals \<^verbatim>\<open>Number(fp)\<close>, the rounded value of the
    literal, when that is a number;
  \<^item> exactly the rows whose priority, as a string, contains the trimmed \<open>fp\<close>, otherwise.

  The filter \<^verbatim>\<open>"2"\<close> on rows of priorities 1, 2, 2, 3 passes the second and the third row.
  When no other filter is set, the rows shown are the rows that pass the priority filter.
  For every natural number below \<open>2^53\<close>, the filter that is its decimal digits passes
  exactly the rows of that priority.
\<close>

theorem priority_filter:
  "(trim fp = [] \<longrightarrow> filter (passPriority P fp) rs = rs)
   \<and> (trim fp \<noteq> [] \<and> Number P fp \<noteq> NaN \<longrightarrow>
        filter (passPriority P fp) rs = filter (\<lambda>r. priority r = Number P fp) rs)
   \<and> (trim fp \<noteq> [] \<and> Number P fp = NaN \<longrightarrow>
        filter (passPriority P fp) rs
          = filter (\<lambda>r. str_includes (numberToString P (priority r)) (trim fp)) rs)
   \<and> (map priority rs = [Fin 1, Fin 2, Fin 2, Fin 3] \<longrightarrow>
        filter (passPriority P ''2'') rs = [rs ! 1, rs ! 2])
   \<and> (fSite st = [] \<and> fPoint st = [] \<and> fValue st = [] \<and> fDateFrom st = []
        \<and> fDateTo st = [] \<and> fAck st = F_all \<and> fDisc st = F_all \<longrightarrow>
        filtered P st = filter (passPriority P (fPriority st)) (rows st))
   \<and> (n < 2 ^ 53 \<longrightarrow>
        filter (passPriority P (decimal_nat n)) rs
          = filter (\<lambda>r. priority r = Fin (of_nat n)) rs)"
proof (intro conjI impI)
  assume "trim fp = []"
  then have "passPriority P fp = (\<lambda>r. True)"
    by (intro ext) (simp add: passPriority_iff)
  then show "filter (passPriority P fp) rs = rs" by simp
next
  assume "trim fp \<noteq> [] \<and> Number P fp \<noteq> NaN"
  then have "passPriority P fp = (\<lambda>r. priority r = Number P fp)"
    by (intro ext) (simp add: passPriority_iff)
  then show "filter (passPriority P fp) rs = filter (\<lambda>r. priority r = Number P fp) rs"
    by simp
next
  assume "trim fp \<noteq> [] \<and> Number P fp = NaN"
  then have "passPriority P fp
               = (\<lambda>r. str_includes (numberToString P (priority r)) (trim fp))"
    by (intro ext) (simp add: passPriority_iff)
  then show "filter (passPriority P fp) rs
          = filter (\<lambda>r. str_includes (numberToString P (priority r)) (trim fp)) rs"
    by simp
next
  assume "map priority rs = [Fin 1, Fin 2, Fin 2, Fin 3]"
  then obtain w x y z where "rs = [w, x, y, z]" "priority w = Fin 1" "priority x = Fin 2"
      "priority y = Fin 2" "priority z = Fin 3"
    using map_eq_four by blast
  then show "filter (passPriority P ''2'') rs = [rs ! 1, rs ! 2]"
    by (simp add: passPriority_2)
next
  assume "fSite st = [] \<and> fPoint st = [] \<and> fValue st = [] \<and> fDateFrom st = []
        \<and> fDateTo st = [] \<and> fAck st = F_all \<and> fDisc st = F_all"
  then have "passRow P st = passPriority P (fPriority st)"
    by (intro ext) (simp add: passRow_priority_only)
  then show "filtered P st = filter (passPriority P (fPriority st)) (rows st)"
    by (simp add: filtered_def)
next
  assume "n < 2 ^ 53"
  then have "passPriority P (decimal_nat n) = (\<lambda>r. priority r = Fin (of_nat n))"
    by (intro ext) (simp add: passPriority_decimal_nat)
  then show "filter (passPriority P (decimal_nat n)) rs
       = filter (\<lambda>r. priority r = Fin (of_nat n)) rs"
    by simp
qed

lemma decimal_nat_12: "decimal_nat 12 = ''12''"
  by code_simp

theorem priority_filter_witness:
  "trim [] = []
   \<and> filter (passPriority example_platform [])
        [example_row ''a'' [] (Fin 1), example_row ''b'' [] (Fin 3)]
      = [example_row ''a'' [] (Fin 1), example_row ''b'' [] (Fin 3)]
   \<and> Number example_platform ''2'' = Fin 2
   \<and> filter (passPriority example_platform ''2'')
        [example_row ''a'' [] (Fin 1), example_row ''b'' [] (Fin 2),
         example_row ''c'' [] (Fin 2), example_row ''d'' [] (Fin 3)]
      = [example_row ''b'' [] (Fin 2), example_row ''c'' [] (Fin 2)]
   \<and> filtered example_platform
        ((init_state example_cols)
           \<lparr> rows := [example_row ''a'' [] (Fin 1), example_row ''b'' [] (Fin 2),
                      example_row ''c'' [] (Fin 2), example_row ''d'' [] (Fin 3)],
             fPriority := ''2'' \<rparr>)
      = [example_row ''b'' [] (Fin 2), example_row ''c'' [] (Fin 2)]
   \<and> Number example_platform '' - '' = NaN
   \<and> filter (passPriority example_platform '' - '')
        [example_row ''a'' [] (Fin 1), example_row ''b'' [] (Fin (- 2))]
      = [example_row ''b'' [] (Fin (- 2))]
   \<and> (12::nat) < 2 ^ 53
   \<and> decimal_nat 12 = ''12''
   \<and> filter (passPriority example_platform ''12'')
        [example_row ''a'' [] (Fin 1), example_row ''b'' [] (Fin 12)]
      = [example_row ''b'' [] (Fin 12)]"
proof -
  have three: "trim [] = []
     \<and> filter (passPriority example_platform [])
          [example_row ''a'' [] (Fin 1), example_row ''b'' [] (Fin 3)]
        = [example_row ''a'' [] (Fin 1), example_row ''b'' [] (Fin 3)]
     \<and> Number example_platform ''2'' = Fin 2
     \<and> filter (passPriority example_platform ''2'')
          [example_row ''a'' [] (Fin 1), example_row ''b'' [] (Fin 2),
           example_row ''c'' [] (Fin 2), example_row ''d'' [] (Fin 3)]
        = [example_row ''b'' [] (Fin 2), example_row ''c'' [] (Fin 2)]
     \<and> filtered example_platform
          ((init_state example_cols)
             \<lparr> rows := [example_row ''a'' [] (Fin 1), example_row ''b'' [] (Fin 2),
                        example_row ''c'' [] (Fin 2), example_row ''d'' [] (Fin 3)],
               fPriority := ''2'' \<rparr>)
        = [example_row ''b'' [] (Fin 2), example_row ''c'' [] (Fin 2)]
     \<and> Number example_platform '' - '' = NaN
     \<and> filter (passPriority example_platform '' - '')
          [example_row ''a'' [] (Fin 1), example_row ''b'' [] (Fin (- 2))]
        = [example_row ''b'' [] (Fin (- 2))]"
    using priority_filter [of "[]" example_platform
             "[example_row ''a'' [] (Fin 1), example_row ''b'' [] (Fin 3)]"
             "init_state example_cols"]
          priority_filter [of "''2''" example_platform
             "[example_row ''a'' [] (Fin 1), example_row ''b'' [] (Fin 2),
               example_row ''c'' [] (Fin 2), example_row ''d'' [] (Fin 3)]"
             "(init_state example_cols)
                \<lparr> rows := [example_row ''a'' [] (Fin 1), example_row ''b'' [] (Fin 2),
                           example_row ''c'' [] (Fin 2), example_row ''d'' [] (Fin 3)],
                  fPriority := ''2'' \<rparr>"]
          priority_filter [of "'' - ''" example_platform
             "[example_row ''a'' [] (Fin 1), example_row ''b'' [] (Fin (- 2))]"
             "init_state example_cols"]
    by (simp add: trim_empty trim_2 Number_2 trim_minus Number_minus example_row_def
          numberToString_1 numberToString_minus_2 init_state_def)
  have lt: "(12::nat) < 2 ^ 53" by simp
  have "filter (passPriority example_platform (decimal_nat 12))
          [example_row ''a'' [] (Fin 1), example_row ''b'' [] (Fin 12)]
        = filter (\<lambda>r. priority r = Fin (of_nat 12))
          [example_row ''a'' [] (Fin 1), example_row ''b'' [] (Fin 12)]"
    using priority_filter [where n = 12 and P = example_platform
        and rs = "[example_row ''a'' [] (Fin 1), example_row ''b'' [] (Fin 12)]"] lt
    by blast
  then have digits: "filter (passPriority example_platform ''12'')
          [example_row ''a'' [] (Fin 1), example_row ''b'' [] (Fin 12)]
        = [example_row ''b'' [] (Fin 12)]"
    by (simp add: decimal_nat_12 example_row_def)
  show ?thesis
    using three lt digits decimal_nat_12 by blast
qed

subsection \<open>The default priority\<close>

lemma priority_toRow: "priority (toRow P (f, a)) = priority_or_zero (alarm_priority a)"
  by (simp add: toRow_def)

lemma js_mul_zero_dir: "js_mul P (Fin 0) (dir_factor d) = Fin 0"
  by (simp add: dir_factor_def to_double_0)

text \<open>
  Claim C10. When the priority of an alarm is not a finite number (it is missing, not a
  number, or \<^verbatim>\<open>NaN\<close> or infinite), the priority of its row is 0. Such a row passes the
  priority filter \<^verbatim>\<open>"0"\<close>, and the comparator of the priority column returns 0 for it and
  any row of priority 0, in both orders and both directions.
\<close>

theorem non_finite_priority_is_zero:
  "\<not> Number_isFinite (alarm_priority a) \<Longrightarrow>
     priority (toRow P (f, a)) = Fin 0
   \<and> passPriority P ''0'' (toRow P (f, a))
   \<and> (priority r = Fin 0 \<longrightarrow>
        sort_compare P K_priority d (toRow P (f, a)) r = Fin 0
      \<and> sort_compare P K_priority d r (toRow P (f, a)) = Fin 0)"
  by (simp add: priority_toRow priority_or_zero_def passPriority_0 sort_compare_def
        to_double_0 js_mul_zero_dir)

theorem non_finite_priority_is_zero_witness:
  "\<not> Number_isFinite (alarm_priority (example_alarm ''7'' [] JUndefined))
   \<and> \<not> Number_isFinite (alarm_priority (example_alarm ''8'' [] (JNumber NaN)))
   \<and> \<not> Number_isFinite (alarm_priority (example_alarm ''9'' [] (JString ''3'')))
   \<and> priority (toRow example_platform (Ip100, example_alarm ''7'' [] JUndefined)) = Fin 0
   \<and> priority (toRow example_platform (Ip100, example_alarm ''8'' [] (JNumber NaN))) = Fin 0
   \<and> priority (toRow example_platform (Ip69, example_alarm ''9'' [] (JString ''3''))) = Fin 0
   \<and> passPriority example_platform ''0''
        (toRow example_platform (Ip100, example_alarm ''7'' [] JUndefined))
   \<and> priority (example_row ''b'' [] (Fin 0)) = Fin 0
   \<and> sort_compare example_platform K_priority Desc
        (toRow example_platform (Ip100, example_alarm ''7'' [] JUndefined))
        (example_row ''b'' [] (Fin 0)) = Fin 0"
  using non_finite_priority_is_zero [of "example_alarm ''7'' [] JUndefined" example_platform
          Ip100 "example_row ''b'' [] (Fin 0)" Desc]
        non_finite_priority_is_zero [of "example_alarm ''8'' [] (JNumber NaN)" example_platform
          Ip100 "example_row ''b'' [] (Fin 0)" Desc]
        non_finite_priority_is_zero [of "example_alarm ''9'' [] (JString ''3'')" example_platform
          Ip69 "example_row ''b'' [] (Fin 0)" Desc]
  by (simp add: example_alarm_def example_row_def)

subsection \<open>The value comparator\<close>

lemma parseFloat_12_5: "parseFloat P ''12.5'' = Fin (25 / 2)"
proof -
  have "parse_signed (trimStart ''12.5'') = Some (Fin (25 / 2), [])"
    by code_simp
  then show ?thesis
    by (simp add: parseFloat_def number_value_def to_double_exact exact64_25_2)
qed

lemma replace_first_comma:
  "CHR '','' \<notin> set u \<Longrightarrow>
   replace_first CHR '','' CHR ''.'' (u @ CHR '','' # v) = u @ CHR ''.'' # v"
  by (induction u) auto

lemma replace_first_none:
  "CHR '','' \<notin> set u \<Longrightarrow> replace_first CHR '','' CHR ''.'' u = u"
  by (induction u) auto

lemma sort_compare_value:
  "sort_compare P K_value d a b =
     (if parseFloat P (replace_first CHR '','' CHR ''.'' (row_value a)) \<noteq> NaN
         \<and> parseFloat P (replace_first CHR '','' CHR ''.'' (row_value b)) \<noteq> NaN
      then js_mul P (js_sub P (parseFloat P (replace_first CHR '','' CHR ''.'' (row_value a)))
                              (parseFloat P (replace_first CHR '','' CHR ''.'' (row_value b))))
                    (dir_factor d)
      else compare_text P d (row_value a) (row_value b))"
  by (simp add: sort_compare_def Let_def Number_isNaN_iff)

lemma js_mul_dir_exact:
  "exact64 q \<Longrightarrow> js_mul P (Fin q) (dir_factor d) = Fin (q * (if d = Asc then 1 else - 1))"
  by (simp add: dir_factor_def to_double_exact exact64_uminus)

text \<open>
  Claim C7. The comparator of the value column reads both values with \<^verbatim>\<open>parseFloat\<close>
  after replacing the first comma by a point.
  \<^item> When neither is \<^verbatim>\<open>NaN\<close>, the result is their difference times the direction,
    computed in binary64; when the values are \<open>x\<close> and \<open>y\<close> and binary64 holds \<open>x - y\<close>
    exactly, it is \<open>x - y\<close>, negated when the direction is descending.
  \<^item> When one of them is \<^verbatim>\<open>NaN\<close>, the result is that of \<^verbatim>\<open>localeCompare\<close> on the
    values as they are, times the direction.
  \<^item> Two values that differ only in writing the decimal separator as a comma or as a
    point, and that read as a finite number, compare as 0; so do \<^verbatim>\<open>"12,5"\<close> and
    \<^verbatim>\<open>"12.5"\<close>, which both read as 12.5.
\<close>

theorem value_comparator:
  "(parseFloat P (replace_first CHR '','' CHR ''.'' (row_value a)) \<noteq> NaN
      \<and> parseFloat P (replace_first CHR '','' CHR ''.'' (row_value b)) \<noteq> NaN \<longrightarrow>
      sort_compare P K_value d a b
        = js_mul P (js_sub P (parseFloat P (replace_first CHR '','' CHR ''.'' (row_value a)))
                             (parseFloat P (replace_first CHR '','' CHR ''.'' (row_value b))))
                   (dir_factor d))
   \<and> (parseFloat P (replace_first CHR '','' CHR ''.'' (row_value a)) = Fin x
      \<and> parseFloat P (replace_first CHR '','' CHR ''.'' (row_value b)) = Fin y
      \<and> exact64 (x - y) \<longrightarrow>
      sort_compare P K_value d a b = Fin ((x - y) * (if d = Asc then 1 else - 1)))
   \<and> (parseFloat P (replace_first CHR '','' CHR ''.'' (row_value a)) = NaN
      \<or> parseFloat P (replace_first CHR '','' CHR ''.'' (row_value b)) = NaN \<longrightarrow>
      sort_compare P K_value d a b
        = js_mul P (Fin (of_int (localeCompare P (row_value a) (row_value b)))) (dir_factor d))
   \<and> (CHR '','' \<notin> set u \<and> CHR '','' \<notin> set v
        \<and> row_value a = u @ '','' @ v \<and> row_value b = u @ ''.'' @ v
        \<and> parseFloat P (u @ ''.'' @ v) = Fin x \<longrightarrow>
      sort_compare P K_value d a b = Fin 0 \<and> sort_compare P K_value d b a = Fin 0)
   \<and> parseFloat P (replace_first CHR '','' CHR ''.'' ''12,5'') = Fin (25 / 2)
   \<and> parseFloat P (replace_first CHR '','' CHR ''.'' ''12.5'') = Fin (25 / 2)
   \<and> (row_value a = ''12,5'' \<and> row_value b = ''12.5'' \<longrightarrow>
      sort_compare P K_value d a b = Fin 0 \<and> sort_compare P K_value d b a = Fin 0)"
proof (intro conjI impI)
  assume "parseFloat P (replace_first CHR '','' CHR ''.'' (row_value a)) \<noteq> NaN
      \<and> parseFloat P (replace_first CHR '','' CHR ''.'' (row_value b)) \<noteq> NaN"
  then show "sort_compare P K_value d a b
        = js_mul P (js_sub P (parseFloat P (replace_first CHR '','' CHR ''.'' (row_value a)))
                             (parseFloat P (replace_first CHR '','' CHR ''.'' (row_value b))))
                   (dir_factor d)"
    by (simp add: sort_compare_value)
next
  assume "parseFloat P (replace_first CHR '','' CHR ''.'' (row_value a)) = Fin x
      \<and> parseFloat P (replace_first CHR '','' CHR ''.'' (row_value b)) = Fin y
      \<and> exact64 (x - y)"
  then show "sort_compare P K_value d a b = Fin ((x - y) * (if d = Asc then 1 else - 1))"
    by (simp add: sort_compare_value to_double_exact js_mul_dir_exact)
next
  assume "parseFloat P (replace_first CHR '','' CHR ''.'' (row_value a)) = NaN
      \<or> parseFloat P (replace_first CHR '','' CHR ''.'' (row_value b)) = NaN"
  then show "sort_compare P K_value d a b
        = js_mul P (Fin (of_int (localeCompare P (row_value a) (row_value b)))) (dir_factor d)"
    by (auto simp: sort_compare_value compare_text_def)
next
  assume h: "CHR '','' \<notin> set u \<and> CHR '','' \<notin> set v
     \<and> row_value a = u @ '','' @ v \<and> row_value b = u @ ''.'' @ v
     \<and> parseFloat P (u @ ''.'' @ v) = Fin x"
  then have "replace_first CHR '','' CHR ''.'' (row_value a) = u @ ''.'' @ v"
    by (simp add: replace_first_comma)
  moreover from h have "replace_first CHR '','' CHR ''.'' (row_value b) = u @ ''.'' @ v"
    by (simp add: replace_first_none)
  ultimately have "sort_compare P K_value d a b = Fin 0 \<and> sort_compare P K_value d b a = Fin 0"
    using h by (simp add: sort_compare_value to_double_0 js_mul_dir_exact exact64_0)
  then show "sort_compare P K_value d a b = Fin 0" "sort_compare P K_value d b a = Fin 0"
    by simp_all
next
  show "parseFloat P (replace_first CHR '','' CHR ''.'' ''12,5'') = Fin (25 / 2)"
    by (simp add: parseFloat_12_5)
next
  show "parseFloat P (replace_first CHR '','' CHR ''.'' ''12.5'') = Fin (25 / 2)"
    by (simp add: parseFloat_12_5)
next
  assume h: "row_value a = ''12,5'' \<and> row_value b = ''12.5''"
  then have "sort_compare P K_value d a b = Fin 0 \<and> sort_compare P K_value d b a = Fin 0"
    by (simp add: sort_compare_value parseFloat_12_5 to_double_0 js_mul_dir_exact exact64_0)
  then show "sort_compare P K_value d a b = Fin 0" "sort_compare P K_value d b a = Fin 0"
    by simp_all
qed

lemma parseFloat_3: "parseFloat P ''3'' = Fin 3"
proof -
  have "parse_signed (trimStart ''3'') = Some (Fin 3, [])"
    by code_simp
  then show ?thesis
    using exact64_of_nat [of 3] by (simp add: parseFloat_def number_value_def to_double_exact)
qed

lemma parseFloat_open: "parseFloat P ''open'' = NaN"
proof -
  have "parse_signed (trimStart ''open'') = None"
    by code_simp
  then show ?thesis by (simp add: parseFloat_def)
qed

lemma exact64_19_2: "exact64 (19 / 2)"
  by code_simp

lemma exact64_1: "exact64 1"
  using exact64_of_nat [of 1] by simp

theorem value_comparator_witness:
  "parseFloat example_platform
     (replace_first CHR '','' CHR ''.'' (row_value (example_row ''a'' ''12,5'' (Fin 1))))
     = Fin (25 / 2)
   \<and> parseFloat example_platform
       (replace_first CHR '','' CHR ''.'' (row_value (example_row ''b'' ''3'' (Fin 1))))
     = Fin 3
   \<and> exact64 (25 / 2 - 3)
   \<and> sort_compare example_platform K_value Asc
        (example_row ''a'' ''12,5'' (Fin 1)) (example_row ''b'' ''3'' (Fin 1)) = Fin (19 / 2)
   \<and> sort_compare example_platform K_value Desc
        (example_row ''a'' ''12,5'' (Fin 1)) (example_row ''b'' ''3'' (Fin 1)) = Fin (- (19 / 2))
   \<and> parseFloat example_platform
       (replace_first CHR '','' CHR ''.'' (row_value (example_row ''c'' ''open'' (Fin 1))))
     = NaN
   \<and> sort_compare example_platform K_value Desc
        (example_row ''c'' ''open'' (Fin 1)) (example_row ''b'' ''3'' (Fin 1)) = Fin (- 1)
   \<and> sort_compare example_platform K_value Asc
        (example_row ''a'' ''12,5'' (Fin 1)) (example_row ''d'' ''12.5'' (Fin 1)) = Fin 0
   \<and> sort_compare example_platform K_value Desc
        (example_row ''d'' ''12.5'' (Fin 1)) (example_row ''a'' ''12,5'' (Fin 1)) = Fin 0"
proof -
  let ?a = "example_row ''a'' ''12,5'' (Fin 1)"
  let ?b = "example_row ''b'' ''3'' (Fin 1)"
  let ?c = "example_row ''c'' ''open'' (Fin 1)"
  let ?d = "example_row ''d'' ''12.5'' (Fin 1)"
  have va: "row_value ?a = ''12,5''" and vb: "row_value ?b = ''3''"
    and vc: "row_value ?c = ''open''" and vd: "row_value ?d = ''12.5''"
    by (simp_all add: example_row_def)
  have pa: "parseFloat example_platform (replace_first CHR '','' CHR ''.'' (row_value ?a))
              = Fin (25 / 2)"
    by (simp add: va parseFloat_12_5)
  have pb: "parseFloat example_platform (replace_first CHR '','' CHR ''.'' (row_value ?b))
              = Fin 3"
    by (simp add: vb parseFloat_3)
  have pc: "parseFloat example_platform (replace_first CHR '','' CHR ''.'' (row_value ?c))
              = NaN"
    by (simp add: vc parseFloat_open)
  have ex: "exact64 (25 / 2 - 3)"
    using exact64_19_2 by simp
  have asc: "sort_compare example_platform K_value Asc ?a ?b = Fin (19 / 2)"
    using value_comparator [of example_platform ?a ?b Asc "25 / 2" 3, THEN conjunct2,
            THEN conjunct1] pa pb ex
    by simp
  have desc: "sort_compare example_platform K_value Desc ?a ?b = Fin (- (19 / 2))"
    using value_comparator [of example_platform ?a ?b Desc "25 / 2" 3, THEN conjunct2,
            THEN conjunct1] pa pb ex
    by simp
  have "sort_compare example_platform K_value Desc ?c ?b
          = js_mul example_platform (Fin (of_int (localeCompare example_platform
               (row_value ?c) (row_value ?b)))) (dir_factor Desc)"
    using value_comparator [of example_platform ?c ?b Desc, THEN conjunct2, THEN conjunct2,
            THEN conjunct1] pc
    by simp
  then have by_text: "sort_compare example_platform K_value Desc ?c ?b = Fin (- 1)"
    using js_mul_dir_exact [OF exact64_1, of example_platform Desc]
    by (simp add: vc vb example_platform_def)
  have same: "sort_compare example_platform K_value Asc ?a ?d = Fin 0"
      "sort_compare example_platform K_value Desc ?d ?a = Fin 0"
    using value_comparator [of example_platform ?a ?d Asc]
          value_comparator [of example_platform ?a ?d Desc]
    by (simp_all add: va vd)
  show ?thesis
    using pa pb pc ex asc desc by_text same by simp
qed

subsection \<open>Filters and sort across refreshes\<close>

lemma view_of_fetchData_start: "view_of (fetchData_start st) = view_of st"
  by (simp add: view_of_def fetchData_start_def)

lemma view_of_fetchData_catch: "view_of (fetchData_catch e st) = view_of st"
  by (simp add: view_of_def fetchData_catch_def)

lemma view_of_fetchData_finish: "view_of (fetchData_finish P S L st) = view_of st"
  by (simp add: fetchData_finish_def Let_def view_of_fetchData_catch split: sum.splits)
     (simp add: view_of_def)

lemma view_of_fetchData: "view_of (fetchData P B S st) = view_of st"
  by (simp add: fetchData_def view_of_fetchData_start view_of_fetchData_finish
      view_of_fetchData_catch split: sum.splits)

lemma view_of_autoRefresh_effect: "view_of (autoRefresh_effect st) = view_of st"
  by (simp add: view_of_def autoRefresh_effect_def)

lemma view_of_step:
  "ev \<noteq> ClickClear \<Longrightarrow> view_of (ui (step P sys ev)) = view_of (ui sys)"
  by (cases ev)
     (simp_all add: step_def call_fetchData_def Let_def view_of_fetchData_start
        view_of_fetchData_finish view_of_autoRefresh_effect split: option.splits,
      simp_all add: view_of_def fetchData_start_def)

lemma view_of_clearFilters:
  "view_of (clearFilters st) = ([], [], [], [], [], [], F_all, F_all, K_dateTime, Desc)"
  by (simp add: view_of_def clearFilters_def)

lemma old_view_of_clearFilters:
  "old_view_of (old_clearFilters st)
     = ([], [], [], [], [], F_all, F_all, old_sortKey st, old_sortDir st)"
  by (simp add: old_view_of_def old_clearFilters_def)

lemma old_view_of_catch: "old_view_of (old_catch e st) = old_view_of st"
  by (simp add: old_view_of_def old_catch_def)

lemma old_view_of_fetchData: "old_view_of (old_fetchData P B S st) = old_view_of st"
  by (simp add: old_fetchData_def Let_def old_view_of_catch split: sum.splits)
     (simp add: old_view_of_def)

text \<open>
  Claim C5, as stated, fails on the older revision of the component, which the claim
  covers: there the table is sorted by site, ascending, and a filter is set;
  \<^verbatim>\<open>clearFilters\<close> empties the filter and the sort is still by site, ascending, not the
  default.
\<close>

theorem older_clearFilters_keeps_the_sort:
  "old_fSite (old_clearFilters ((old_init_state example_old_cols)
       \<lparr> old_fSite := ''AHU'', old_sortKey := O_site, old_sortDir := Asc \<rparr>)) = []
   \<and> old_sortKey (old_clearFilters ((old_init_state example_old_cols)
       \<lparr> old_fSite := ''AHU'', old_sortKey := O_site, old_sortDir := Asc \<rparr>)) = O_site
   \<and> old_sortDir (old_clearFilters ((old_init_state example_old_cols)
       \<lparr> old_fSite := ''AHU'', old_sortKey := O_site, old_sortDir := Asc \<rparr>)) = Asc
   \<and> (old_sortKey (old_init_state example_old_cols),
       old_sortDir (old_init_state example_old_cols)) = (O_dateTime, Desc)
   \<and> (old_sortKey (old_clearFilters ((old_init_state example_old_cols)
          \<lparr> old_fSite := ''AHU'', old_sortKey := O_site, old_sortDir := Asc \<rparr>)),
       old_sortDir (old_clearFilters ((old_init_state example_old_cols)
          \<lparr> old_fSite := ''AHU'', old_sortKey := O_site, old_sortDir := Asc \<rparr>)))
     \<noteq> (O_dateTime, Desc)"
  by (simp add: old_clearFilters_def old_init_state_def)

text \<open>
  Claim C5, amended. \<^verbatim>\<open>clearFilters\<close> sets every filter field to its empty value and the
  two selects to \<^verbatim>\<open>'all'\<close>, keeps the rows and fetches nothing. In the component with two
  backends it also sets the sort to the date column, descending, which is the initial
  sort; in the older component with one backend it leaves the sort key and the direction
  as they are. In both components a refresh changes neither the filters nor the sort: not
  a whole round of \<^verbatim>\<open>fetchData\<close>, and, with two backends, none of the events of
  mounting, the timer, the refresh button, the auto-refresh checkbox and the settling of a
  round.
\<close>

theorem clear_resets_filters_and_sort:
  "view_of (clearFilters st) = ([], [], [], [], [], [], F_all, F_all, K_dateTime, Desc)
   \<and> view_of (clearFilters st) = view_of (init_state vc)
   \<and> rows (clearFilters st) = rows st
   \<and> step P sys ClickClear = sys\<lparr> ui := clearFilters (ui sys) \<rparr>
   \<and> view_of (fetchData P B S st) = view_of st
   \<and> view_of (ui (step P sys Mount)) = view_of (ui sys)
   \<and> view_of (ui (step P sys Tick)) = view_of (ui sys)
   \<and> view_of (ui (step P sys ClickRefresh)) = view_of (ui sys)
   \<and> view_of (ui (step P sys (SetAutoRefresh b))) = view_of (ui sys)
   \<and> view_of (ui (step P sys (RoundSettles i r100 r69))) = view_of (ui sys)
   \<and> old_view_of (old_clearFilters ost)
       = ([], [], [], [], [], F_all, F_all, old_sortKey ost, old_sortDir ost)
   \<and> old_rows (old_clearFilters ost) = old_rows ost
   \<and> old_view_of (old_fetchData P OB S ost) = old_view_of ost"
  by (simp add: view_of_clearFilters view_of_fetchData view_of_step old_view_of_clearFilters
        old_view_of_fetchData)
     (simp add: view_of_def init_state_def clearFilters_def step_def old_clearFilters_def)

theorem clear_resets_filters_and_sort_witness:
  "view_of (clearFilters ((init_state example_cols)
       \<lparr> fSite := ''AHU'', fPriority := ''2'', fAck := F_sim, sortKey := K_value,
         sortDir := Asc \<rparr>))
     = ([], [], [], [], [], [], F_all, F_all, K_dateTime, Desc)
   \<and> view_of (fetchData example_platform backend_up example_storage
        ((init_state example_cols)
           \<lparr> fSite := ''AHU'', fPriority := ''2'', fAck := F_sim, sortKey := K_value,
             sortDir := Asc \<rparr>))
     = (''AHU'', [], [], [], [], ''2'', F_sim, F_all, K_value, Asc)
   \<and> old_view_of (old_clearFilters ((old_init_state example_old_cols)
       \<lparr> old_fSite := ''AHU'', old_fAck := F_sim, old_sortKey := O_site,
         old_sortDir := Asc \<rparr>))
     = ([], [], [], [], [], F_all, F_all, O_site, Asc)
   \<and> old_view_of (old_fetchData example_platform old_backend_up example_storage
        ((old_init_state example_old_cols)
           \<lparr> old_fSite := ''AHU'', old_fAck := F_sim, old_sortKey := O_site,
             old_sortDir := Asc \<rparr>))
     = (''AHU'', [], [], [], [], F_sim, F_all, O_site, Asc)"
  using clear_resets_filters_and_sort [of "(init_state example_cols)
       \<lparr> fSite := ''AHU'', fPriority := ''2'', fAck := F_sim, sortKey := K_value,
         sortDir := Asc \<rparr>" example_cols example_platform
       "init_system example_cols example_storage" backend_up example_storage
       True 0 "Inl []" "Inl []"
       "(old_init_state example_old_cols)
           \<lparr> old_fSite := ''AHU'', old_fAck := F_sim, old_sortKey := O_site,
             old_sortDir := Asc \<rparr>" old_backend_up]
  by (simp add: view_of_def init_state_def old_view_of_def old_init_state_def)

subsection \<open>Rounds in flight\<close>

lemma after_mount:
  "step P (init_system vc S) Mount =
     \<lparr> ui = (init_state vc)\<lparr> loading := True, intervalRef := Some (opts_of (init_state vc)) \<rparr>,
       inFlight = [opts_of (init_state vc)], localStorage = S \<rparr>"
  by (simp add: step_def init_system_def call_fetchData_def fetchData_start_def
      autoRefresh_effect_def init_state_def opts_of_def Let_def)

lemma run_events_append: "run_events P sys (xs @ ys) = run_events P (run_events P sys xs) ys"
  by (simp add: run_events_def)

lemma run_events_Cons: "run_events P sys (e # es) = run_events P (step P sys e) es"
  by (simp add: run_events_def)

text \<open>While the count-down is above the number of ticks, each tick only decrements it.\<close>

lemma ticks_count_down:
  "intervalRef (ui sys) = Some opts \<Longrightarrow> int n < secondsLeft (ui sys) \<Longrightarrow>
   run_events P sys (replicate n Tick) =
     sys\<lparr> ui := (ui sys)\<lparr> secondsLeft := secondsLeft (ui sys) - int n \<rparr> \<rparr>"
proof (induction n arbitrary: sys)
  case 0
  then show ?case by (simp add: run_events_def)
next
  case (Suc n)
  have s: "step P sys Tick = sys\<lparr> ui := (ui sys)\<lparr> secondsLeft := secondsLeft (ui sys) - 1 \<rparr> \<rparr>"
    using Suc.prems by (simp add: step_def)
  have "run_events P (step P sys Tick) (replicate n Tick) =
     (step P sys Tick)\<lparr> ui := (ui (step P sys Tick))
        \<lparr> secondsLeft := secondsLeft (ui (step P sys Tick)) - int n \<rparr> \<rparr>"
    using Suc.prems by (intro Suc.IH) (simp_all add: s)
  then show ?case by (simp add: s run_events_Cons)
qed

lemma replicate_snoc: "replicate (Suc n) x = replicate n x @ [x]"
  by (simp add: replicate_append_same)

lemma replicate_60: "replicate 60 Tick = replicate 59 Tick @ [Tick]"
  using replicate_snoc [of 59 Tick] by simp

text \<open>
  Claim C2, on the code. The component mounts and its first round does not settle. After
  59 ticks that round is the only one in flight, \<^verbatim>\<open>loading\<close> is set, and a click on the
  refresh button does nothing, the button being disabled. The 60th tick calls
  \<^verbatim>\<open>fetchData\<close> again: two rounds are in flight.
\<close>

theorem timer_starts_second_round:
  "inFlight (run_events P (init_system vc S) (Mount # replicate 59 Tick))
     = [opts_of (init_state vc)]
   \<and> loading (ui (run_events P (init_system vc S) (Mount # replicate 59 Tick)))
   \<and> step P (run_events P (init_system vc S) (Mount # replicate 59 Tick)) ClickRefresh
       = run_events P (init_system vc S) (Mount # replicate 59 Tick)
   \<and> inFlight (run_events P (init_system vc S) (Mount # replicate 60 Tick))
       = [opts_of (init_state vc), opts_of (init_state vc)]"
proof -
  let ?o = "opts_of (init_state vc)"
  let ?m = "\<lparr> ui = (init_state vc)\<lparr> loading := True, intervalRef := Some ?o \<rparr>,
              inFlight = [?o], localStorage = S \<rparr>"
  let ?s = "?m\<lparr> ui := (ui ?m)\<lparr> secondsLeft := 1 \<rparr> \<rparr>"
  have "run_events P ?m (replicate 59 Tick)
          = ?m\<lparr> ui := (ui ?m)\<lparr> secondsLeft := secondsLeft (ui ?m) - int 59 \<rparr> \<rparr>"
    by (rule ticks_count_down [of ?m ?o]) (simp_all add: init_state_def)
  then have e59: "run_events P (init_system vc S) (Mount # replicate 59 Tick) = ?s"
    by (simp add: run_events_Cons after_mount init_state_def)
  have "run_events P (init_system vc S) (Mount # replicate 60 Tick)
          = step P (run_events P (init_system vc S) (Mount # replicate 59 Tick)) Tick"
    by (simp add: replicate_60 run_events_Cons run_events_append) (simp add: run_events_def)
  then have e60: "run_events P (init_system vc S) (Mount # replicate 60 Tick) = step P ?s Tick"
    by (simp only: e59)
  show ?thesis
    unfolding e60 unfolding e59
    by (simp add: step_def call_fetchData_def)
qed

subsection \<open>One round of fetchData\<close>

lemma run_attempt: "run B (attempt t) = (fst (run B t), Inr (snd (run B t)))"
  by (induction t) (simp_all split: prod.splits)

lemma run_and_then:
  "run B (and_then t f) =
     (case snd (run B t) of
        Inl e \<Rightarrow> (fst (run B t), Inl e)
      | Inr x \<Rightarrow> (fst (run B t) @ fst (run B (f x)), snd (run B (f x))))"
  by (induction t) (simp_all split: prod.splits sum.splits)

lemma run_fetchData_calls:
  "run B (fetchData_calls opts) =
     (calls B Api100 opts @ calls B Api69 opts,
      Inr (after69 (outcome B Api69 opts) (after100 (outcome B Api100 opts) init_locals)))"
  by (simp add: fetchData_calls_def run_and_then run_attempt outcome_def calls_def)

lemma calls_eq:
  "calls B p opts =
     (case loginP B p ''api'' ''GMX3-Rel.10'' of
        Inl e \<Rightarrow> [Issued (Login p), Settled (Login p)]
      | Inr token \<Rightarrow>
          [Issued (Login p), Settled (Login p), Issued (GetAlarms p), Settled (GetAlarms p)])"
  by (simp add: calls_def fetchFrom_def split: sum.splits prod.splits)

lemma outcome_eq:
  "outcome B p opts =
     (case loginP B p ''api'' ''GMX3-Rel.10'' of
        Inl e \<Rightarrow> Inl e
      | Inr token \<Rightarrow>
          (case getAlarmsP B p token opts of Inl e \<Rightarrow> Inl e | Inr data \<Rightarrow> Inr (items data)))"
  by (simp add: outcome_def fetchFrom_def split: sum.splits prod.splits)

text \<open>The awaited part never throws, each \<^verbatim>\<open>fetchFrom\<close> having a \<^verbatim>\<open>try\<close> of its own;
  the outer \<^verbatim>\<open>catch\<close> is entered from the projection only.\<close>

lemma fetchData_eq:
  "fetchData P B S st =
     fetchData_finish P S
       (after69 (outcome B Api69 (opts_of st))
          (after100 (outcome B Api100 (opts_of st)) init_locals))
       (fetchData_start st)"
  by (simp add: fetchData_def run_fetchData_calls)

lemma itemsAll_after:
  "itemsAll (after69 r69 (after100 r100 init_locals)) = tagged Ip100 r100 @ tagged Ip69 r69"
  by (simp add: after69_def after100_def init_locals_def tagged_def split: sum.splits)

lemma successes_after:
  "successes (after69 r69 (after100 r100 init_locals)) =
     (case r100 of Inl e \<Rightarrow> [] | Inr xs \<Rightarrow> [''10.2.1.100''])
     @ (case r69 of Inl e \<Rightarrow> [] | Inr xs \<Rightarrow> [''10.2.1.69''])"
  by (simp add: after69_def after100_def init_locals_def split: sum.splits)

lemma failures_after:
  "failures (after69 r69 (after100 r100 init_locals)) =
     (case r100 of Inr xs \<Rightarrow> [] | Inl e \<Rightarrow> [''10.2.1.100''])
     @ (case r69 of Inr xs \<Rightarrow> [] | Inl e \<Rightarrow> [''10.2.1.69''])"
  by (simp add: after69_def after100_def init_locals_def split: sum.splits)

lemma counts_after:
  "c100 (after69 r69 (after100 r100 init_locals))
     = (case r100 of Inl e \<Rightarrow> 0 | Inr xs \<Rightarrow> length xs)"
  "c69 (after69 r69 (after100 r100 init_locals))
     = (case r69 of Inl e \<Rightarrow> 0 | Inr xs \<Rightarrow> length xs)"
  by (simp_all add: after69_def after100_def init_locals_def split: sum.splits)

text \<open>The projection: the rows in order when no item is \<^verbatim>\<open>null\<close>, the exception
  otherwise.\<close>

lemma mapped_Some:
  "mapped P (map (\<lambda>x. (fst x, Some (snd x))) xs) = Inr (map (toRow P) xs)"
  by (induction xs) auto

lemma mapped_None: "(f, None) \<in> set ys \<Longrightarrow> mapped P ys = Inl (nullReadMessage P)"
  by (induction P ys rule: mapped.induct) auto

lemma mapped_Nil: "mapped P [] = Inr []"
  by simp

lemma rows_fetchData_finish:
  "rows (fetchData_finish P S L st)
     = (case mapped P (itemsAll L) of Inl e \<Rightarrow> rows st | Inr rs \<Rightarrow> rs)"
  by (simp add: fetchData_finish_def fetchData_catch_def Let_def split: sum.splits)

lemma err_fetchData_finish:
  "err (fetchData_finish P S L st)
     = (case mapped P (itemsAll L) of
          Inl e \<Rightarrow> (if e \<noteq> [] then e else ''Erro desconhecido'')
        | Inr rs \<Rightarrow> err st)"
  by (simp add: fetchData_finish_def fetchData_catch_def Let_def split: sum.splits)

lemma rows_fetchData:
  "rows (fetchData P B S st)
     = (case mapped P (tagged Ip100 (outcome B Api100 (opts_of st))
                       @ tagged Ip69 (outcome B Api69 (opts_of st))) of
          Inl e \<Rightarrow> rows st
        | Inr rs \<Rightarrow> rs)"
  by (simp add: fetchData_eq rows_fetchData_finish itemsAll_after fetchData_start_def
      split: sum.splits)

lemma err_fetchData:
  "err (fetchData P B S st)
     = (case mapped P (tagged Ip100 (outcome B Api100 (opts_of st))
                       @ tagged Ip69 (outcome B Api69 (opts_of st))) of
          Inl e \<Rightarrow> (if e \<noteq> [] then e else ''Erro desconhecido'')
        | Inr rs \<Rightarrow> [])"
  by (simp add: fetchData_eq err_fetchData_finish itemsAll_after fetchData_start_def
      split: sum.splits)

lemma outcome_up:
  "outcome backend_up p opts = Inr [Some (example_alarm ''7'' ''Fan'' (JNumber (Fin 2)))]"
  by (simp add: outcome_eq backend_up_def)

lemma outcome_69_down:
  "outcome backend_69_down Api100 opts
     = Inr [Some (example_alarm ''7'' ''Fan'' (JNumber (Fin 2)))]"
  "outcome backend_69_down Api69 opts = Inl ''Falha no login /api69 (503): ''"
  by (simp_all add: outcome_eq backend_69_down_def)

lemma outcome_down: "outcome backend_down p opts = Inl ''Failed to fetch''"
  by (simp add: outcome_eq backend_down_def)

lemma outcome_null_item:
  "outcome backend_null_item Api100 opts
     = Inr [Some (example_alarm ''7'' ''Fan'' (JNumber (Fin 2)))]"
  "outcome backend_null_item Api69 opts
     = Inr [Some (example_alarm ''8'' ''Pump'' (JNumber (Fin 1))), None]"
  by (simp_all add: outcome_eq backend_null_item_def)

lemma rows_up:
  "rows (fetchData example_platform backend_up example_storage st)
     = [toRow example_platform (Ip100, example_alarm ''7'' ''Fan'' (JNumber (Fin 2))),
        toRow example_platform (Ip69, example_alarm ''7'' ''Fan'' (JNumber (Fin 2)))]"
  by (simp add: rows_fetchData outcome_up tagged_def)

subsection \<open>The rows after a round\<close>

text \<open>
  Claim C1, as stated, fails. In a first round both backends answer, and the table shows
  the alarm of \<^verbatim>\<open>10.2.1.69\<close>. In the next round the login of \<^verbatim>\<open>/api69\<close> is refused:
  the row of \<^verbatim>\<open>10.2.1.69\<close> is no longer in the table.
\<close>

theorem failed_source_rows_are_dropped:
  "toRow example_platform (Ip69, example_alarm ''7'' ''Fan'' (JNumber (Fin 2)))
     \<in> set (rows (fetchData example_platform backend_up example_storage
                    (init_state example_cols)))
   \<and> outcome backend_69_down Api69
        (opts_of (fetchData example_platform backend_up example_storage
                    (init_state example_cols)))
       = Inl ''Falha no login /api69 (503): ''
   \<and> toRow example_platform (Ip69, example_alarm ''7'' ''Fan'' (JNumber (Fin 2)))
     \<notin> set (rows (fetchData example_platform backend_69_down example_storage
                   (fetchData example_platform backend_up example_storage
                      (init_state example_cols))))"
  by (simp add: rows_fetchData outcome_up outcome_69_down tagged_def toRow_def composedId_def)

text \<open>
  Claim C1, amended. Take the items that the backends returned in a round, those of
  \<^verbatim>\<open>/api100\<close> first, a backend that failed giving none.
  \<^item> When their projection completes, the table holds exactly their rows after the round:
    the rows shown before are replaced, whatever they were. So the rows of a backend that
    fails in the round are removed, and the table is empty when both fail. The projection
    completes when no item is \<^verbatim>\<open>null\<close>, and its rows are then those of the alarms, in
    order.
  \<^item> When the projection throws, which a \<^verbatim>\<open>null\<close> item makes it do, the table keeps the
    rows it had before the round and the message of the exception is the error shown.

  The same holds when a round in flight settles.
\<close>

theorem rows_replaced_each_round:
  "(mapped P (tagged Ip100 (outcome B Api100 (opts_of st))
              @ tagged Ip69 (outcome B Api69 (opts_of st))) = Inr rs \<longrightarrow>
      rows (fetchData P B S st) = rs)
   \<and> (mapped P (tagged Ip100 (outcome B Api100 (opts_of st))
                @ tagged Ip69 (outcome B Api69 (opts_of st))) = Inl e \<longrightarrow>
      rows (fetchData P B S st) = rows st
      \<and> err (fetchData P B S st) = (if e \<noteq> [] then e else ''Erro desconhecido''))
   \<and> mapped P (map (\<lambda>x. (fst x, Some (snd x))) xs) = Inr (map (toRow P) xs)
   \<and> ((f, None) \<in> set ys \<longrightarrow> mapped P ys = Inl (nullReadMessage P))
   \<and> (outcome B Api69 (opts_of st) = Inl e69
        \<and> mapped P (tagged Ip100 (outcome B Api100 (opts_of st))) = Inr rs \<longrightarrow>
      rows (fetchData P B S st) = rs)
   \<and> (outcome B Api100 (opts_of st) = Inl e100
        \<and> mapped P (tagged Ip69 (outcome B Api69 (opts_of st))) = Inr rs \<longrightarrow>
      rows (fetchData P B S st) = rs)
   \<and> (outcome B Api100 (opts_of st) = Inl e100 \<and> outcome B Api69 (opts_of st) = Inl e69 \<longrightarrow>
      rows (fetchData P B S st) = [])
   \<and> (i < length (inFlight sys) \<and> mapped P (tagged Ip100 r100 @ tagged Ip69 r69) = Inr rs \<longrightarrow>
      rows (ui (step P sys (RoundSettles i r100 r69))) = rs)
   \<and> (i < length (inFlight sys) \<and> mapped P (tagged Ip100 r100 @ tagged Ip69 r69) = Inl e \<longrightarrow>
      rows (ui (step P sys (RoundSettles i r100 r69))) = rows (ui sys))"
proof (intro conjI impI)
  assume "mapped P (tagged Ip100 (outcome B Api100 (opts_of st))
              @ tagged Ip69 (outcome B Api69 (opts_of st))) = Inr rs"
  then show "rows (fetchData P B S st) = rs"
    by (simp add: rows_fetchData)
next
  assume h: "mapped P (tagged Ip100 (outcome B Api100 (opts_of st))
              @ tagged Ip69 (outcome B Api69 (opts_of st))) = Inl e"
  then show "rows (fetchData P B S st) = rows st"
    by (simp add: rows_fetchData)
  from h show "err (fetchData P B S st) = (if e \<noteq> [] then e else ''Erro desconhecido'')"
    by (simp add: err_fetchData)
next
  show "mapped P (map (\<lambda>x. (fst x, Some (snd x))) xs) = Inr (map (toRow P) xs)"
    by (rule mapped_Some)
next
  assume "(f, None) \<in> set ys"
  then show "mapped P ys = Inl (nullReadMessage P)"
    by (rule mapped_None)
next
  assume "outcome B Api69 (opts_of st) = Inl e69
        \<and> mapped P (tagged Ip100 (outcome B Api100 (opts_of st))) = Inr rs"
  then show "rows (fetchData P B S st) = rs"
    by (simp add: rows_fetchData tagged_def)
next
  assume "outcome B Api100 (opts_of st) = Inl e100
        \<and> mapped P (tagged Ip69 (outcome B Api69 (opts_of st))) = Inr rs"
  then show "rows (fetchData P B S st) = rs"
    by (simp add: rows_fetchData tagged_def)
next
  assume "outcome B Api100 (opts_of st) = Inl e100 \<and> outcome B Api69 (opts_of st) = Inl e69"
  then show "rows (fetchData P B S st) = []"
    by (simp add: rows_fetchData tagged_def)
next
  assume "i < length (inFlight sys) \<and> mapped P (tagged Ip100 r100 @ tagged Ip69 r69) = Inr rs"
  then show "rows (ui (step P sys (RoundSettles i r100 r69))) = rs"
    by (simp add: step_def rows_fetchData_finish itemsAll_after)
next
  assume "i < length (inFlight sys) \<and> mapped P (tagged Ip100 r100 @ tagged Ip69 r69) = Inl e"
  then show "rows (ui (step P sys (RoundSettles i r100 r69))) = rows (ui sys)"
    by (simp add: step_def rows_fetchData_finish itemsAll_after)
qed

theorem rows_replaced_each_round_witness:
  "rows (fetchData example_platform backend_up example_storage (init_state example_cols))
     = [toRow example_platform (Ip100, example_alarm ''7'' ''Fan'' (JNumber (Fin 2))),
        toRow example_platform (Ip69, example_alarm ''7'' ''Fan'' (JNumber (Fin 2)))]
   \<and> outcome backend_69_down Api69
        (opts_of (fetchData example_platform backend_up example_storage
                    (init_state example_cols)))
       = Inl ''Falha no login /api69 (503): ''
   \<and> rows (fetchData example_platform backend_69_down example_storage
             (fetchData example_platform backend_up example_storage
                (init_state example_cols)))
     = [toRow example_platform (Ip100, example_alarm ''7'' ''Fan'' (JNumber (Fin 2)))]
   \<and> outcome backend_down Api100 (opts_of (init_state example_cols)) = Inl ''Failed to fetch''
   \<and> rows (fetchData example_platform backend_down example_storage
             (fetchData example_platform backend_up example_storage
                (init_state example_cols)))
     = []
   \<and> mapped example_platform
        (tagged Ip100 (outcome backend_null_item Api100 (opts_of (init_state example_cols)))
         @ tagged Ip69 (outcome backend_null_item Api69 (opts_of (init_state example_cols))))
     = Inl ''Cannot read properties of null (reading 'id')''
   \<and> rows (fetchData example_platform backend_null_item example_storage
             (fetchData example_platform backend_up example_storage
                (init_state example_cols)))
     = [toRow example_platform (Ip100, example_alarm ''7'' ''Fan'' (JNumber (Fin 2))),
        toRow example_platform (Ip69, example_alarm ''7'' ''Fan'' (JNumber (Fin 2)))]
   \<and> err (fetchData example_platform backend_null_item example_storage
            (fetchData example_platform backend_up example_storage
               (init_state example_cols)))
     = ''Cannot read properties of null (reading 'id')''"
proof -
  let ?P = example_platform
  let ?a = "example_alarm ''7'' ''Fan'' (JNumber (Fin 2))"
  let ?st0 = "init_state example_cols"
  let ?st1 = "fetchData ?P backend_up example_storage ?st0"
  have m_up: "mapped ?P (tagged Ip100 (outcome backend_up Api100 (opts_of ?st0))
                @ tagged Ip69 (outcome backend_up Api69 (opts_of ?st0)))
              = Inr [toRow ?P (Ip100, ?a), toRow ?P (Ip69, ?a)]"
    by (simp add: outcome_up tagged_def)
  have r_up: "rows ?st1 = [toRow ?P (Ip100, ?a), toRow ?P (Ip69, ?a)]"
    using rows_replaced_each_round [of ?P backend_up ?st0, THEN conjunct1] m_up by simp
  have o69: "outcome backend_69_down Api69 (opts_of ?st1) = Inl ''Falha no login /api69 (503): ''"
    by (rule outcome_69_down)
  have m_100: "mapped ?P (tagged Ip100 (outcome backend_69_down Api100 (opts_of ?st1)))
                 = Inr [toRow ?P (Ip100, ?a)]"
    by (simp add: outcome_69_down tagged_def)
  have r_69: "rows (fetchData ?P backend_69_down example_storage ?st1) = [toRow ?P (Ip100, ?a)]"
    using rows_replaced_each_round [of ?P backend_69_down ?st1,
            THEN conjunct2, THEN conjunct2, THEN conjunct2, THEN conjunct2, THEN conjunct1]
          o69 m_100
    by simp
  have od: "outcome backend_down Api100 (opts_of ?st0) = Inl ''Failed to fetch''"
    by (rule outcome_down)
  have r_down: "rows (fetchData ?P backend_down example_storage ?st1) = []"
    using rows_replaced_each_round [of ?P backend_down ?st1,
            THEN conjunct2, THEN conjunct2, THEN conjunct2, THEN conjunct2, THEN conjunct2,
            THEN conjunct2, THEN conjunct1]
          outcome_down [of Api100 "opts_of ?st1"] outcome_down [of Api69 "opts_of ?st1"]
    by simp
  have m_null: "mapped ?P (tagged Ip100 (outcome backend_null_item Api100 (opts_of st))
                  @ tagged Ip69 (outcome backend_null_item Api69 (opts_of st)))
                = Inl ''Cannot read properties of null (reading 'id')''" for st
    by (simp add: outcome_null_item tagged_def example_platform_def)
  have r_null: "rows (fetchData ?P backend_null_item example_storage ?st1) = rows ?st1
      \<and> err (fetchData ?P backend_null_item example_storage ?st1)
          = ''Cannot read properties of null (reading 'id')''"
    using rows_replaced_each_round [of ?P backend_null_item ?st1,
            THEN conjunct2, THEN conjunct1] m_null [of ?st1]
    by simp
  show ?thesis
    using r_up o69 r_69 od r_down m_null [of ?st0] r_null by simp
qed

subsection \<open>The order of the calls\<close>

lemma not_concurrent_2_2:
  "\<not> concurrent ([Issued (Login Api100), Settled (Login Api100)]
                    @ [Issued (Login Api69), Settled (Login Api69)])"
  by code_simp

lemma not_concurrent_2_4:
  "\<not> concurrent ([Issued (Login Api100), Settled (Login Api100)]
                    @ [Issued (Login Api69), Settled (Login Api69),
                       Issued (GetAlarms Api69), Settled (GetAlarms Api69)])"
  by code_simp

lemma not_concurrent_4_2:
  "\<not> concurrent ([Issued (Login Api100), Settled (Login Api100),
                     Issued (GetAlarms Api100), Settled (GetAlarms Api100)]
                    @ [Issued (Login Api69), Settled (Login Api69)])"
  by code_simp

lemma not_concurrent_4_4:
  "\<not> concurrent ([Issued (Login Api100), Settled (Login Api100),
                     Issued (GetAlarms Api100), Settled (GetAlarms Api100)]
                    @ [Issued (Login Api69), Settled (Login Api69),
                       Issued (GetAlarms Api69), Settled (GetAlarms Api69)])"
  by code_simp

lemma not_concurrent_calls:
  "\<not> concurrent (calls B Api100 opts @ calls B Api69 opts)"
proof (cases "loginP B Api100 ''api'' ''GMX3-Rel.10''")
  case l100: (Inl e)
  show ?thesis
  proof (cases "loginP B Api69 ''api'' ''GMX3-Rel.10''")
    case (Inl e')
    with l100 show ?thesis using not_concurrent_2_2 by (simp add: calls_eq)
  next
    case (Inr t')
    with l100 show ?thesis using not_concurrent_2_4 by (simp add: calls_eq)
  qed
next
  case r100: (Inr t)
  show ?thesis
  proof (cases "loginP B Api69 ''api'' ''GMX3-Rel.10''")
    case (Inl e')
    with r100 show ?thesis using not_concurrent_4_2 by (simp add: calls_eq)
  next
    case (Inr t')
    with r100 show ?thesis using not_concurrent_4_4 by (simp add: calls_eq)
  qed
qed

lemma calls_up:
  "calls backend_up p opts =
     [Issued (Login p), Settled (Login p), Issued (GetAlarms p), Settled (GetAlarms p)]"
  by (simp add: calls_eq backend_up_def)

lemma calls_69_down:
  "calls backend_69_down Api100 opts =
     [Issued (Login Api100), Settled (Login Api100),
      Issued (GetAlarms Api100), Settled (GetAlarms Api100)]"
  "calls backend_69_down Api69 opts = [Issued (Login Api69), Settled (Login Api69)]"
  by (simp_all add: calls_eq backend_69_down_def)

text \<open>
  Claim C3, as stated, fails. With both backends answering, the calls of a round are
  issued and settled one at a time: the login of \<^verbatim>\<open>/api69\<close> is issued after the alarms
  of \<^verbatim>\<open>/api100\<close> have settled, and at no moment is a call to each backend pending.
\<close>

theorem sources_are_not_fetched_concurrently:
  "fst (run backend_up (fetchData_calls (opts_of (init_state example_cols))))
     = [Issued (Login Api100), Settled (Login Api100),
        Issued (GetAlarms Api100), Settled (GetAlarms Api100),
        Issued (Login Api69), Settled (Login Api69),
        Issued (GetAlarms Api69), Settled (GetAlarms Api69)]
   \<and> \<not> concurrent (fst (run backend_up (fetchData_calls (opts_of (init_state example_cols)))))"
  using not_concurrent_calls [of backend_up "opts_of (init_state example_cols)"]
  by (simp add: run_fetchData_calls calls_up)

text \<open>
  Claim C3, amended. In every round the two backends are called one after the other, in
  the fixed order: the calls of \<^verbatim>\<open>/api100\<close> are issued and settled, then those of
  \<^verbatim>\<open>/api69\<close>, and no call to one is pending together with a call to the other. A failure
  of one backend does not cancel the other's calls: the login of each is issued in every
  round. The awaited part of the round ends only after both have settled and always with
  the two outcomes recorded, each backend among the successes or among the failures; it
  stops neither at the first failure nor at the first success.
\<close>

theorem sources_fetched_one_after_the_other:
  "fst (run B (fetchData_calls opts)) = calls B Api100 opts @ calls B Api69 opts
   \<and> \<not> concurrent (fst (run B (fetchData_calls opts)))
   \<and> Issued (Login Api100) \<in> set (fst (run B (fetchData_calls opts)))
   \<and> Issued (Login Api69) \<in> set (fst (run B (fetchData_calls opts)))
   \<and> snd (run B (fetchData_calls opts))
       = Inr (after69 (outcome B Api69 opts) (after100 (outcome B Api100 opts) init_locals))
   \<and> length (successes (after69 (outcome B Api69 opts)
                          (after100 (outcome B Api100 opts) init_locals)))
     + length (failures (after69 (outcome B Api69 opts)
                           (after100 (outcome B Api100 opts) init_locals))) = 2"
proof -
  have "Issued (Login p) \<in> set (calls B p opts)" for p
    by (simp add: calls_eq split: sum.splits)
  then show ?thesis
    by (simp add: run_fetchData_calls not_concurrent_calls successes_after failures_after
        split: sum.splits)
qed

theorem sources_fetched_one_after_the_other_witness:
  "fst (run backend_69_down (fetchData_calls (opts_of (init_state example_cols))))
     = [Issued (Login Api100), Settled (Login Api100),
        Issued (GetAlarms Api100), Settled (GetAlarms Api100),
        Issued (Login Api69), Settled (Login Api69)]
   \<and> successes (after69 (outcome backend_69_down Api69 (opts_of (init_state example_cols)))
        (after100 (outcome backend_69_down Api100 (opts_of (init_state example_cols)))
           init_locals)) = [''10.2.1.100'']
   \<and> failures (after69 (outcome backend_69_down Api69 (opts_of (init_state example_cols)))
        (after100 (outcome backend_69_down Api100 (opts_of (init_state example_cols)))
           init_locals)) = [''10.2.1.69'']"
  using sources_fetched_one_after_the_other [of backend_69_down
          "opts_of (init_state example_cols)"]
  by (simp add: calls_69_down outcome_69_down successes_after failures_after)

subsection \<open>The note of a round\<close>

lemma note_fetchData_finish:
  "connectionNote (fetchData_finish P S L st) =
     (if length (successes L) = 2 then note_connected (c100 L) (c69 L)
      else if length (successes L) = 1 then note_partial (successes L ! 0) (failures L)
      else note_failed)"
  by (simp add: fetchData_finish_def fetchData_catch_def Let_def split: sum.splits)

lemma note_cases:
  "connectionNote (fetchData_finish P S (after69 r69 (after100 r100 init_locals)) st) =
     (case r100 of
        Inr a \<Rightarrow>
          (case r69 of
             Inr b \<Rightarrow> note_connected (length a) (length b)
           | Inl e \<Rightarrow> note_partial ''10.2.1.100'' [''10.2.1.69''])
      | Inl e \<Rightarrow>
          (case r69 of
             Inr b \<Rightarrow> note_partial ''10.2.1.69'' [''10.2.1.100'']
           | Inl e' \<Rightarrow> note_failed))"
  by (simp add: note_fetchData_finish successes_after failures_after counts_after
      split: sum.splits)

lemma notes_distinct:
  "note_connected m n \<noteq> note_partial ok fl"
  "note_partial ok fl \<noteq> note_connected m n"
  "note_connected m n \<noteq> note_failed"
  "note_failed \<noteq> note_connected m n"
  "note_partial ok fl \<noteq> note_failed"
  "note_failed \<noteq> note_partial ok fl"
  "note_partial ''10.2.1.100'' [''10.2.1.69''] \<noteq> note_partial ''10.2.1.69'' [''10.2.1.100'']"
  by (simp_all add: note_connected_def note_partial_def note_failed_def)

text \<open>The texts of the notes.\<close>

lemma note_partial_100:
  "note_partial ''10.2.1.100'' [''10.2.1.69'']
     = ''Parcial '' @ [CHR 0xE2, CHR 0x80, CHR 0x94] @ '' ok: 10.2.1.100 / falha: 10.2.1.69''"
  by (simp add: note_partial_def)

lemma note_partial_69:
  "note_partial ''10.2.1.69'' [''10.2.1.100'']
     = ''Parcial '' @ [CHR 0xE2, CHR 0x80, CHR 0x94] @ '' ok: 10.2.1.69 / falha: 10.2.1.100''"
  by (simp add: note_partial_def)

lemma note_failed_text:
  "note_failed = ''Falha nas duas conex'' @ [CHR 0xC3, CHR 0xB5] @ ''es''"
  by (simp add: note_failed_def)

lemma note_connected_text:
  "note_connected m n
     = ''Conectado (100: '' @ decimal_nat m @ '' + 69: '' @ decimal_nat n @ '')''"
  by (simp add: note_connected_def)

lemma status_text_fetchData_finish:
  "mapped P (itemsAll L) = Inr rs \<Longrightarrow> err st = [] \<Longrightarrow>
   status_text (fetchData_finish P S L st) = connectionNote (fetchData_finish P S L st)"
  by (simp add: status_text_def fetchData_finish_def Let_def note_connected_def
      note_partial_def note_failed_def)

text \<open>
  Claim C8. Let \<open>r100\<close> and \<open>r69\<close> be what the two backends settle to in a round. The note
  the round leaves is
  \<^item> \<^verbatim>\<open>Conectado (100: m + 69: n)\<close> with the two counts, when both succeed, and a note of
    that form exactly then;
  \<^item> \<^verbatim>\<open>Parcial - ok: 10.2.1.100 / falha: 10.2.1.69\<close> when \<^verbatim>\<open>/api100\<close> succeeds and
    \<^verbatim>\<open>/api69\<close> fails, the same with the two addresses exchanged in the opposite case (the
    dash is U+2014), and a note of that form exactly when one succeeds and the other
    fails;
  \<^item> \<^verbatim>\<open>Falha nas duas conexoes\<close>, its \<^verbatim>\<open>o\<close> being U+00F5, exactly when both fail, and
    this is then the status line.

  In the other cases the note is the status line when the projection of the items
  completes.
\<close>

theorem round_outcome_note:
  assumes "outcome B Api100 (opts_of st) = r100" and "outcome B Api69 (opts_of st) = r69"
  shows
  "((\<exists>m n. connectionNote (fetchData P B S st) = note_connected m n)
      = (\<not> isl r100 \<and> \<not> isl r69))
   \<and> ((\<exists>ok fl. connectionNote (fetchData P B S st) = note_partial ok fl)
      = (isl r100 \<noteq> isl r69))
   \<and> ((connectionNote (fetchData P B S st) = note_failed) = (isl r100 \<and> isl r69))
   \<and> (\<not> isl r100 \<and> \<not> isl r69 \<longrightarrow>
        connectionNote (fetchData P B S st)
          = ''Conectado (100: '' @ decimal_nat (length (projr r100))
            @ '' + 69: '' @ decimal_nat (length (projr r69)) @ '')'')
   \<and> (\<not> isl r100 \<and> isl r69 \<longrightarrow>
        connectionNote (fetchData P B S st)
          = ''Parcial '' @ [CHR 0xE2, CHR 0x80, CHR 0x94]
            @ '' ok: 10.2.1.100 / falha: 10.2.1.69'')
   \<and> (isl r100 \<and> \<not> isl r69 \<longrightarrow>
        connectionNote (fetchData P B S st)
          = ''Parcial '' @ [CHR 0xE2, CHR 0x80, CHR 0x94]
            @ '' ok: 10.2.1.69 / falha: 10.2.1.100'')
   \<and> (isl r100 \<and> isl r69 \<longrightarrow>
        connectionNote (fetchData P B S st)
          = ''Falha nas duas conex'' @ [CHR 0xC3, CHR 0xB5] @ ''es''
        \<and> status_text (fetchData P B S st)
          = ''Falha nas duas conex'' @ [CHR 0xC3, CHR 0xB5] @ ''es'')
   \<and> (mapped P (tagged Ip100 r100 @ tagged Ip69 r69) = Inr rs \<longrightarrow>
        status_text (fetchData P B S st) = connectionNote (fetchData P B S st))
   \<and> note_partial ok' fl' \<noteq> note_failed
   \<and> note_partial ''10.2.1.100'' [''10.2.1.69''] \<noteq> note_partial ''10.2.1.69'' [''10.2.1.100'']"
proof -
  have n: "connectionNote (fetchData P B S st) =
     (case r100 of
        Inr a \<Rightarrow>
          (case r69 of
             Inr b \<Rightarrow> note_connected (length a) (length b)
           | Inl e \<Rightarrow> note_partial ''10.2.1.100'' [''10.2.1.69''])
      | Inl e \<Rightarrow>
          (case r69 of
             Inr b \<Rightarrow> note_partial ''10.2.1.69'' [''10.2.1.100'']
           | Inl e' \<Rightarrow> note_failed))"
    using assms by (simp add: fetchData_eq note_cases)
  have s: "status_text (fetchData P B S st) = connectionNote (fetchData P B S st)"
    if "mapped P (tagged Ip100 r100 @ tagged Ip69 r69) = Inr rs" for rs
    using that assms
    by (simp add: fetchData_eq status_text_fetchData_finish itemsAll_after fetchData_start_def)
  have both: "mapped P (tagged Ip100 r100 @ tagged Ip69 r69) = Inr []"
    if "isl r100 \<and> isl r69"
    using that by (cases r100; cases r69) (simp_all add: tagged_def)
  have iffs: "((\<exists>m n. connectionNote (fetchData P B S st) = note_connected m n)
      = (\<not> isl r100 \<and> \<not> isl r69))
   \<and> ((\<exists>ok fl. connectionNote (fetchData P B S st) = note_partial ok fl)
      = (isl r100 \<noteq> isl r69))
   \<and> ((connectionNote (fetchData P B S st) = note_failed) = (isl r100 \<and> isl r69))"
    unfolding n by (cases r100; cases r69) (auto simp: notes_distinct)
  have texts: "(\<not> isl r100 \<and> \<not> isl r69 \<longrightarrow>
        connectionNote (fetchData P B S st)
          = ''Conectado (100: '' @ decimal_nat (length (projr r100))
            @ '' + 69: '' @ decimal_nat (length (projr r69)) @ '')'')
   \<and> (\<not> isl r100 \<and> isl r69 \<longrightarrow>
        connectionNote (fetchData P B S st)
          = ''Parcial '' @ [CHR 0xE2, CHR 0x80, CHR 0x94]
            @ '' ok: 10.2.1.100 / falha: 10.2.1.69'')
   \<and> (isl r100 \<and> \<not> isl r69 \<longrightarrow>
        connectionNote (fetchData P B S st)
          = ''Parcial '' @ [CHR 0xE2, CHR 0x80, CHR 0x94]
            @ '' ok: 10.2.1.69 / falha: 10.2.1.100'')
   \<and> (isl r100 \<and> isl r69 \<longrightarrow>
        connectionNote (fetchData P B S st)
          = ''Falha nas duas conex'' @ [CHR 0xC3, CHR 0xB5] @ ''es'')"
    unfolding n
    by (cases r100; cases r69)
       (simp_all only: sum.case sum.disc note_partial_100 note_partial_69 note_failed_text
          note_connected_text sum.sel simp_thms)
  have st_failed: "isl r100 \<and> isl r69 \<longrightarrow>
        status_text (fetchData P B S st)
          = ''Falha nas duas conex'' @ [CHR 0xC3, CHR 0xB5] @ ''es''"
    using s [OF both] texts by simp
  show ?thesis
    using iffs texts st_failed s notes_distinct(5) [of ok' fl'] notes_distinct(7)
    by blast
qed

lemma decimal_nat_1: "decimal_nat (Suc 0) = ''1''"
proof -
  have "decimal_nat 1 = ''1''" by code_simp
  then show ?thesis by simp
qed

theorem round_outcome_note_witness:
  "outcome backend_up Api100 (opts_of (init_state example_cols))
     = Inr [Some (example_alarm ''7'' ''Fan'' (JNumber (Fin 2)))]
   \<and> outcome backend_up Api69 (opts_of (init_state example_cols))
     = Inr [Some (example_alarm ''7'' ''Fan'' (JNumber (Fin 2)))]
   \<and> connectionNote (fetchData example_platform backend_up example_storage
                       (init_state example_cols))
     = ''Conectado (100: 1 + 69: 1)''
   \<and> outcome backend_69_down Api69 (opts_of (init_state example_cols))
     = Inl ''Falha no login /api69 (503): ''
   \<and> connectionNote (fetchData example_platform backend_69_down example_storage
                       (init_state example_cols))
     = ''Parcial '' @ [CHR 0xE2, CHR 0x80, CHR 0x94] @ '' ok: 10.2.1.100 / falha: 10.2.1.69''
   \<and> status_text (fetchData example_platform backend_69_down example_storage
                    (init_state example_cols))
     = ''Parcial '' @ [CHR 0xE2, CHR 0x80, CHR 0x94] @ '' ok: 10.2.1.100 / falha: 10.2.1.69''
   \<and> outcome backend_down Api100 (opts_of (init_state example_cols)) = Inl ''Failed to fetch''
   \<and> outcome backend_down Api69 (opts_of (init_state example_cols)) = Inl ''Failed to fetch''
   \<and> connectionNote (fetchData example_platform backend_down example_storage
                       (init_state example_cols))
     = ''Falha nas duas conex'' @ [CHR 0xC3, CHR 0xB5] @ ''es''
   \<and> status_text (fetchData example_platform backend_down example_storage
                    (init_state example_cols))
     = ''Falha nas duas conex'' @ [CHR 0xC3, CHR 0xB5] @ ''es''"
proof -
  let ?st = "init_state example_cols"
  let ?a = "[Some (example_alarm ''7'' ''Fan'' (JNumber (Fin 2)))]"
  have u100: "outcome backend_up Api100 (opts_of ?st) = Inr ?a"
    and u69: "outcome backend_up Api69 (opts_of ?st) = Inr ?a"
    by (rule outcome_up)+
  have d100: "outcome backend_69_down Api100 (opts_of ?st) = Inr ?a"
    and d69: "outcome backend_69_down Api69 (opts_of ?st) = Inl ''Falha no login /api69 (503): ''"
    by (rule outcome_69_down)+
  have f100: "outcome backend_down Api100 (opts_of ?st) = Inl ''Failed to fetch''"
    and f69: "outcome backend_down Api69 (opts_of ?st) = Inl ''Failed to fetch''"
    by (rule outcome_down)+
  note up = round_outcome_note [OF u100 u69]
  note partial = round_outcome_note [OF d100 d69]
  note down = round_outcome_note [OF f100 f69]
  have c_up: "connectionNote (fetchData example_platform backend_up example_storage ?st)
                = ''Conectado (100: 1 + 69: 1)''"
    using up [THEN conjunct2, THEN conjunct2, THEN conjunct2, THEN conjunct1]
    by (simp add: decimal_nat_1)
  have c_partial: "connectionNote (fetchData example_platform backend_69_down example_storage ?st)
       = ''Parcial '' @ [CHR 0xE2, CHR 0x80, CHR 0x94] @ '' ok: 10.2.1.100 / falha: 10.2.1.69''"
    using partial [THEN conjunct2, THEN conjunct2, THEN conjunct2, THEN conjunct2,
                   THEN conjunct1] by simp
  have m_partial: "mapped example_platform
          (tagged Ip100 (Inr ?a) @ tagged Ip69 (Inl ''Falha no login /api69 (503): ''))
        = Inr [toRow example_platform (Ip100, example_alarm ''7'' ''Fan'' (JNumber (Fin 2)))]"
    by (simp add: tagged_def)
  have s_partial: "status_text (fetchData example_platform backend_69_down example_storage ?st)
       = connectionNote (fetchData example_platform backend_69_down example_storage ?st)"
    using partial [THEN conjunct2, THEN conjunct2, THEN conjunct2, THEN conjunct2,
                   THEN conjunct2, THEN conjunct2, THEN conjunct2, THEN conjunct1]
          m_partial
    by simp
  have c_down: "connectionNote (fetchData example_platform backend_down example_storage ?st)
                  = ''Falha nas duas conex'' @ [CHR 0xC3, CHR 0xB5] @ ''es''
       \<and> status_text (fetchData example_platform backend_down example_storage ?st)
                  = ''Falha nas duas conex'' @ [CHR 0xC3, CHR 0xB5] @ ''es''"
    using down [THEN conjunct2, THEN conjunct2, THEN conjunct2, THEN conjunct2,
                THEN conjunct2, THEN conjunct2, THEN conjunct1] by simp
  show ?thesis
    unfolding s_partial c_up c_partial u100 u69 d69 f100 f69
    using c_down by simp
qed

end
